theory Spec2Isabelle
  imports Main "HOL-Library.Sublist"
begin

section \<open>Tables of rossi\_strand.py\<close>

text \<open>
  A pandas DataFrame is a list of rows in index order; every row is a record with one field
  per column. The field prefix names the table the row belongs to: \<open>cx_\<close> for the
  reference peaks (ChExMix) after \<open>load_tf_chexmix_bed\<close> renamed start and end,
  \<open>mt_\<close> for a motif table, \<open>mg_\<close> for the frame \<open>pd.merge\<close> returns,
  \<open>jr_\<close> for the six columns \<open>merge_motif_with_chexmix\<close> returns and \<open>ag_\<close>
  for the eight columns of the aggregated table. Coordinates and scores are integers,
  the other columns are text.
\<close>

record chexmix_row =
  cx_chrom :: string
  cx_start_abf1 :: int
  cx_end_abf1 :: int
  cx_name :: string
  cx_score :: int
  cx_strand :: string

record motif_row =
  mt_chrom :: string
  mt_start :: int
  mt_end :: int
  mt_col3 :: string
  mt_col4 :: int
  mt_strand :: string

record merged_row =
  mg_chrom :: string
  mg_start_abf1 :: int
  mg_end_abf1 :: int
  mg_name :: string
  mg_score :: int
  mg_strand_abf1 :: string
  mg_start :: int
  mg_end :: int
  mg_col3 :: string
  mg_col4 :: int
  mg_strand_four :: string

record joined_row =
  jr_chrom :: string
  jr_start_abf1 :: int
  jr_end_abf1 :: int
  jr_score :: int
  jr_strand_four :: string
  jr_motif :: nat

record agg_row =
  ag_chrom :: string
  ag_start_abf1 :: int
  ag_end_abf1 :: int
  ag_score :: int
  ag_strand_four :: string
  ag_motif :: nat
  ag_sample_id :: string
  ag_replicate :: string

subsection \<open>The pandas operations the script calls\<close>

text \<open>
  \<open>DataFrame.drop_duplicates(subset=key)\<close> with the default \<open>keep='first'\<close>: the rows
  are scanned in order and a row is dropped when an earlier row has the same key.
\<close>

fun drop_dups_from :: "('a \<Rightarrow> 'k) \<Rightarrow> 'k list \<Rightarrow> 'a list \<Rightarrow> 'a list" where
  "drop_dups_from key seen [] = []"
| "drop_dups_from key seen (x # xs) =
     (if key x \<in> set seen then drop_dups_from key seen xs
      else x # drop_dups_from key (key x # seen) xs)"

definition drop_duplicates_by :: "('a \<Rightarrow> 'k) \<Rightarrow> 'a list \<Rightarrow> 'a list" where
  "drop_duplicates_by key df = drop_dups_from key [] df"

definition drop_duplicates :: "'a list \<Rightarrow> 'a list" where
  "drop_duplicates df = drop_duplicates_by (\<lambda>row. row) df"

text \<open>
  One row of \<open>pd.merge(chexmix_df, motif_df, on='chrom', suffixes=('_abf1', '_four'))\<close>:
  the key column once, then the other columns of the left frame, then those of the right
  frame. Only \<open>strand\<close> is a column of both frames, so only it gets the suffixes.
\<close>

definition merged_of :: "chexmix_row \<Rightarrow> motif_row \<Rightarrow> merged_row" where
  "merged_of l r =
     \<lparr>mg_chrom = cx_chrom l, mg_start_abf1 = cx_start_abf1 l, mg_end_abf1 = cx_end_abf1 l,
      mg_name = cx_name l, mg_score = cx_score l, mg_strand_abf1 = cx_strand l,
      mg_start = mt_start r, mg_end = mt_end r, mg_col3 = mt_col3 r, mg_col4 = mt_col4 r,
      mg_strand_four = mt_strand r\<rparr>"

text \<open>
  The inner join on \<open>chrom\<close> (the default \<open>how='inner'\<close>): every pair of a left and a
  right row with equal keys, in the order of the left rows and, for one left row, of the
  right rows.
\<close>

definition pd_merge :: "chexmix_row list \<Rightarrow> motif_row list \<Rightarrow> merged_row list" where
  "pd_merge chexmix_df motif_df =
     concat (map (\<lambda>l. map (merged_of l) (filter (\<lambda>r. cx_chrom l = mt_chrom r) motif_df))
       chexmix_df)"

subsection \<open>merge\_motif\_with\_chexmix\<close>

definition condition :: "merged_row \<Rightarrow> bool" where
  "condition m = (mg_start_abf1 m \<ge> mg_start m \<and> mg_start_abf1 m \<le> mg_end m)"

text \<open>
  \<open>filtered[['chrom', 'start_abf1', 'end_abf1', 'score', 'strand_four']]\<close> followed by
  \<open>filtered['motif'] = motif_num\<close>.
\<close>

definition select_columns :: "nat \<Rightarrow> merged_row \<Rightarrow> joined_row" where
  "select_columns motif_num m =
     \<lparr>jr_chrom = mg_chrom m, jr_start_abf1 = mg_start_abf1 m, jr_end_abf1 = mg_end_abf1 m,
      jr_score = mg_score m, jr_strand_four = mg_strand_four m, jr_motif = motif_num\<rparr>"

text \<open>
  The loop over \<open>motif_dfs.items()\<close>. A dict is the list of its items in insertion order.
  The loop appends one filtered frame per item to \<open>all_results\<close> and prints the motif
  table; the second component collects what it prints.
\<close>

fun merge_loop ::
  "(nat \<times> motif_row list) list \<Rightarrow> chexmix_row list \<Rightarrow> joined_row list list \<Rightarrow>
   motif_row list list \<Rightarrow> joined_row list list \<times> motif_row list list" where
  "merge_loop [] chexmix_df all_results printed = (all_results, printed)"
| "merge_loop ((motif_num, motif_df) # items) chexmix_df all_results printed =
     (let merged = pd_merge chexmix_df motif_df;
          filtered = filter condition merged;
          filtered = map (select_columns motif_num) filtered
      in merge_loop items chexmix_df (all_results @ [filtered]) (printed @ [motif_df]))"

definition merge_motif_with_chexmix ::
  "(nat \<times> motif_row list) list \<Rightarrow> chexmix_row list \<Rightarrow> joined_row list \<times> motif_row list list" where
  "merge_motif_with_chexmix motif_dfs chexmix_df =
     (case merge_loop motif_dfs chexmix_df [] [] of
        (all_results, printed) \<Rightarrow>
          (if all_results \<noteq> [] then (drop_duplicates (concat all_results), printed)
           else ([], printed)))"

text \<open>
  The join as the specification words it: for one motif index, every pair of a reference
  row \<open>R\<close> and a motif row \<open>M\<close> on the same chromosome with
  \<open>M.start \<le> R.start \<le> M.end\<close>, projected and tagged with the index.
\<close>

definition spec_pairs :: "nat \<Rightarrow> chexmix_row list \<Rightarrow> motif_row list \<Rightarrow> joined_row list" where
  "spec_pairs k reference motif =
     [\<lparr>jr_chrom = cx_chrom R, jr_start_abf1 = cx_start_abf1 R, jr_end_abf1 = cx_end_abf1 R,
       jr_score = cx_score R, jr_strand_four = mt_strand M, jr_motif = k\<rparr>.
      R \<leftarrow> reference, M \<leftarrow> motif,
      cx_chrom R = mt_chrom M \<and> mt_start M \<le> cx_start_abf1 R \<and> cx_start_abf1 R \<le> mt_end M]"

definition spec_join :: "(nat \<times> motif_row list) list \<Rightarrow> chexmix_row list \<Rightarrow> joined_row list" where
  "spec_join motifs reference =
     concat (map (\<lambda>(k, motif). spec_pairs k reference motif) motifs)"

text \<open>The first occurrences of a list: the positions no earlier position equals.\<close>

definition first_occurrences :: "('a \<Rightarrow> 'k) \<Rightarrow> 'a list \<Rightarrow> 'a list" where
  "first_occurrences key xs =
     nths xs {i. \<forall>j<i. key (xs ! j) \<noteq> key (xs ! i)}"

section \<open>Strings, paths and the constants of the script\<close>

text \<open>
  Text is ASCII: \<open>str.lower\<close> maps the letters A to Z, \<open>str.strip\<close> removes the
  characters \<open>str.isspace\<close> accepts from both ends, \<open>str.capitalize\<close> puts the first
  character in upper case and the others in lower case, and \<open>str\<close> of a natural number
  is its decimal form.
\<close>

definition lower_char :: "char \<Rightarrow> char" where
  "lower_char c =
     (let n = (of_char c :: nat) in if 65 \<le> n \<and> n \<le> 90 then char_of (n + 32) else c)"

definition upper_char :: "char \<Rightarrow> char" where
  "upper_char c =
     (let n = (of_char c :: nat) in if 97 \<le> n \<and> n \<le> 122 then char_of (n - 32) else c)"

definition str_lower :: "string \<Rightarrow> string" where
  "str_lower s = map lower_char s"

definition isspace :: "char \<Rightarrow> bool" where
  "isspace c = ((of_char c :: nat) \<in> {9, 10, 11, 12, 13, 28, 29, 30, 31, 32})"

definition str_strip :: "string \<Rightarrow> string" where
  "str_strip s = rev (dropWhile isspace (rev (dropWhile isspace s)))"

definition str_capitalize :: "string \<Rightarrow> string" where
  "str_capitalize s = (case s of [] \<Rightarrow> [] | c # cs \<Rightarrow> upper_char c # map lower_char cs)"

fun str_nat :: "nat \<Rightarrow> string" where
  "str_nat n =
     (if n < 10 then [char_of (48 + n)] else str_nat (n div 10) @ [char_of (48 + n mod 10)])"

declare str_nat.simps [simp del]

text \<open>\<open>os.path.join\<close> of two components on a POSIX system.\<close>

definition path_join :: "string \<Rightarrow> string \<Rightarrow> string" where
  "path_join a b =
     (if b \<noteq> [] \<and> hd b = CHR ''/'' then b
      else if a = [] \<or> last a = CHR ''/'' then a @ b
      else a @ ''/'' @ b)"

definition metadata_xlsx :: string where
  "metadata_xlsx = ''/usr/xtmp/nd141/projects/data/supplementary-data-4-210306.xlsx''"

definition base_url :: string where
  "base_url = ''https://www.datacommons.psu.edu/download/eberly/pughlab/yeast-epigenome-project/''"

definition data_dir :: string where
  "data_dir = ''/usr/xtmp/nd141/projects/data''"

definition output_dir :: string where
  "output_dir = ''./output''"

definition sheet_name :: string where
  "sheet_name = ''GEO_GPL19756_GSE147927''"

section \<open>The world the script runs in\<close>

text \<open>
  A row of a six-column interval file as \<open>pd.read_csv(..., header=None)\<close> yields it,
  before the script names the columns.
\<close>

record bed_row =
  col_0 :: string
  col_1 :: int
  col_2 :: int
  col_3 :: string
  col_4 :: int
  col_5 :: string

text \<open>
  What a file holds. \<open>Tsv n rows\<close> is a tab-separated file that \<open>pd.read_csv\<close> parses
  into a table of \<open>n\<close> columns; the script uses the rows only when \<open>n = 6\<close>, and
  \<open>rows\<close> are those rows. \<open>Zip members\<close> is an archive with its members (relative path
  and content) in archive order. \<open>Csv header rows\<close> is a table written by
  \<open>DataFrame.to_csv\<close>. \<open>Damaged\<close> is a member of an archive whose stored data fail
  their CRC check. \<open>Blob\<close> is anything else: neither a table nor an archive.
\<close>

datatype content =
    Tsv nat "bed_row list"
  | Zip "(string \<times> content) list"
  | Csv "string list" "agg_row list"
  | Damaged
  | Blob

datatype error =
    HTTPError nat
  | ConnectionError
  | BadZipFile
  | FileNotFoundError
  | IsADirectoryError
  | NotADirectoryError
  | ParserError
  | LengthMismatch nat nat
  | ExcelError

text \<open>The lines the script prints, one constructor per \<open>print\<close> call.\<close>

datatype message =
    Downloading string
  | AlreadyDownloaded string
  | Extracting string string
  | AlreadyExtracted string
  | ReadingMotif string
  | DownloadingFrom string string
  | SavedTo string
  | PrintFrame "motif_row list"
  | FoundReplicates nat string
  | ProcessingReplicate string string
  | NoMotifFiles string
  | NoResults
  | SavingResults string
  | PipelineFinished
  | RunningPipeline string
  | ErrorProcessing string error

text \<open>The input and output operations the script performs, in order.\<close>

datatype effect =
    HttpGet string
  | WriteFile string
  | ExtractAll string string
  | ToCsv string

text \<open>
  The filesystem is the list of its regular files (the first entry of a path is the
  current one, so a write puts its entry in front) and the list of its directories, each
  under the spelling the script uses for it. \<open>stdout\<close> and \<open>io_log\<close> record what the
  run printed and did.
\<close>

record world =
  files :: "(string \<times> content) list"
  dirs :: "string list"
  stdout :: "message list"
  io_log :: "effect list"

datatype response = NoResponse | Response nat content

record meta_row =
  yeast_target_common_name :: "string option"
  replicate_cell :: string
  sample_id_cell :: string

text \<open>
  What the run reads and cannot change: the answer of the network to a GET request
  (no response at all, or a status code and a body) and what \<open>pd.read_excel\<close> returns
  for a workbook and a sheet name (an error when the file or the sheet is absent). In the
  metadata, \<open>None\<close> is an empty cell.
\<close>

record env =
  http :: "string \<Rightarrow> response"
  xlsx :: "string \<Rightarrow> string \<Rightarrow> error + meta_row list"

definition say :: "message \<Rightarrow> world \<Rightarrow> world" where
  "say m w = w\<lparr>stdout := stdout w @ [m]\<rparr>"

definition isfile :: "world \<Rightarrow> string \<Rightarrow> bool" where
  "isfile w p = (map_of (files w) p \<noteq> None)"

definition isdir :: "world \<Rightarrow> string \<Rightarrow> bool" where
  "isdir w p = (p \<in> set (dirs w))"

definition path_exists :: "world \<Rightarrow> string \<Rightarrow> bool" where
  "path_exists w p = (isfile w p \<or> isdir w p)"

definition makedirs :: "string \<Rightarrow> world \<Rightarrow> world" where
  "makedirs p w = (if isdir w p then w else w\<lparr>dirs := p # dirs w\<rparr>)"

definition requests_get :: "env \<Rightarrow> string \<Rightarrow> world \<Rightarrow> (error + nat \<times> content) \<times> world" where
  "requests_get e url w =
     (let w' = w\<lparr>io_log := io_log w @ [HttpGet url]\<rparr>
      in case http e url of
           NoResponse \<Rightarrow> (Inl ConnectionError, w')
         | Response status body \<Rightarrow> (Inr (status, body), w'))"

definition raise_for_status :: "nat \<times> content \<Rightarrow> error + unit" where
  "raise_for_status r =
     (if 400 \<le> fst r \<and> fst r < 600 then Inl (HTTPError (fst r)) else Inr ())"

text \<open>
  \<open>os.path.dirname\<close> on a POSIX system: the path up to its last slash, without the
  slashes that end this part unless it consists of slashes only.
\<close>

definition dirname :: "string \<Rightarrow> string" where
  "dirname p =
     (let head = rev (dropWhile (\<lambda>c. c \<noteq> CHR ''/'') (rev p));
          stripped = rev (dropWhile (\<lambda>c. c = CHR ''/'') (rev head))
      in if stripped = [] then head else stripped)"

text \<open>
  \<open>open(p, 'wb')\<close> followed by \<open>write\<close>: opening fails when \<open>p\<close> is a directory and
  when the directory that is to hold the file is missing (\<open>FileNotFoundError\<close>) or is a
  regular file (\<open>NotADirectoryError\<close>); then nothing is written. The current directory
  (the empty \<open>dirname\<close>) and the root always exist.
\<close>

definition write_file :: "string \<Rightarrow> content \<Rightarrow> world \<Rightarrow> error + world" where
  "write_file p body w =
     (let parent = dirname p
      in if isdir w p then Inl IsADirectoryError
         else if dropWhile (\<lambda>c. c = CHR ''/'') parent = [] \<or> isdir w parent then
           Inr (w\<lparr>files := (p, body) # files w, io_log := io_log w @ [WriteFile p]\<rparr>)
         else if isfile w parent then Inl NotADirectoryError
         else Inl FileNotFoundError)"

text \<open>
  \<open>zipfile.ZipFile(zip_filename, 'r')\<close> followed by \<open>extractall(extract_path)\<close>.
  Opening fails on a file that is not an archive. \<open>extractall\<close> then extracts the
  members one after the other, in archive order; member names are relative paths, as
  \<open>zipfile\<close> makes them. Extracting a member first creates the directories its path
  lies in (\<open>os.makedirs\<close> of the directory of the target), so the directory
  \<open>extract_path\<close> comes to exist with the first member, and an archive without members
  creates nothing; \<open>os.path.isdir('')\<close> is false whatever exists. A member whose name
  ends with a slash is a directory. A later member replaces an earlier one of the same
  name. A member whose data fail their check raises \<open>BadZipFile\<close> when it is copied:
  its directories and the members before it stay, the file that was being written is
  left behind, and the members after it are not extracted.
\<close>

fun subdirs :: "string \<Rightarrow> string \<Rightarrow> string list" where
  "subdirs pre [] = []"
| "subdirs pre (c # cs) =
     (if c = CHR ''/'' then pre # subdirs (pre @ [c]) cs else subdirs (pre @ [c]) cs)"

definition member_dirs :: "string \<Rightarrow> string \<Rightarrow> string list" where
  "member_dirs extract_path name =
     (if extract_path = [] then [] else [extract_path]) @ subdirs (path_join extract_path []) name"

fun extract_members :: "string \<Rightarrow> (string \<times> content) list \<Rightarrow> world \<Rightarrow> (error + unit) \<times> world" where
  "extract_members extract_path [] w = (Inr (), w)"
| "extract_members extract_path ((name, body) # members) w =
     (let w1 = w\<lparr>dirs := member_dirs extract_path name @ dirs w\<rparr>;
          target = path_join extract_path name
      in if name \<noteq> [] \<and> last name = CHR ''/'' then extract_members extract_path members w1
         else (case body of
                 Damaged \<Rightarrow> (Inl BadZipFile, w1\<lparr>files := (target, Blob) # files w1\<rparr>)
               | _ \<Rightarrow> extract_members extract_path members
                        (w1\<lparr>files := (target, body) # files w1\<rparr>)))"

definition extractall :: "string \<Rightarrow> string \<Rightarrow> world \<Rightarrow> (error + unit) \<times> world" where
  "extractall zip_filename extract_path w =
     (case map_of (files w) zip_filename of
        None \<Rightarrow> (Inl FileNotFoundError, w)
      | Some (Zip members) \<Rightarrow>
          extract_members extract_path members
            (w\<lparr>io_log := io_log w @ [ExtractAll zip_filename extract_path]\<rparr>)
      | Some _ \<Rightarrow> (Inl BadZipFile, w))"

definition read_csv :: "world \<Rightarrow> string \<Rightarrow> error + nat \<times> bed_row list" where
  "read_csv w p =
     (case map_of (files w) p of
        None \<Rightarrow> Inl FileNotFoundError
      | Some (Tsv n rows) \<Rightarrow> Inr (n, rows)
      | Some (Csv header rows) \<Rightarrow> Inr (length header, [])
      | Some _ \<Rightarrow> Inl ParserError)"

text \<open>
  \<open>df.columns = [...]\<close> with six names: pandas raises \<open>ValueError\<close> (length mismatch)
  unless the frame has six columns.
\<close>

definition set_columns :: "nat \<times> bed_row list \<Rightarrow> error + bed_row list" where
  "set_columns df = (if fst df \<noteq> 6 then Inl (LengthMismatch (fst df) 6) else Inr (snd df))"

text \<open>
  \<open>DataFrame.to_csv\<close> into the output directory, which the script creates when it starts
  (\<open>os.makedirs(output_dir, exist_ok=True)\<close>, before any function runs).
\<close>

definition to_csv :: "agg_row list \<Rightarrow> string list \<Rightarrow> string \<Rightarrow> world \<Rightarrow> world" where
  "to_csv df columns p w =
     w\<lparr>files := (p, Csv columns df) # files w, io_log := io_log w @ [ToCsv p]\<rparr>"

section \<open>The functions of the script\<close>

definition get_replicates_for_tf ::
  "env \<Rightarrow> string \<Rightarrow> string \<Rightarrow> error + (string \<times> string) list" where
  "get_replicates_for_tf e tf_name metadata_file =
     (case xlsx e metadata_file sheet_name of
        Inl err \<Rightarrow> Inl err
      | Inr df \<Rightarrow>
          (let df_tf = filter (\<lambda>row. map_option (\<lambda>s. str_lower (str_strip s))
                                    (yeast_target_common_name row) = Some (str_lower tf_name)) df;
               replicates = drop_duplicates (map (\<lambda>row. (replicate_cell row, sample_id_cell row)) df_tf)
           in Inr replicates))"

definition download_and_extract_zip ::
  "env \<Rightarrow> string \<Rightarrow> string \<Rightarrow> world \<Rightarrow> (error + string) \<times> world" where
  "download_and_extract_zip e sample_id dest_folder w =
     (let zip_filename = path_join dest_folder (sample_id @ ''_YEP.zip'');
          downloaded =
            (if \<not> isfile w zip_filename then
               (let url = base_url @ sample_id @ ''_YEP.zip'';
                    w1 = say (Downloading url) w
                in case requests_get e url w1 of
                     (Inl err, w2) \<Rightarrow> (Inl err, w2)
                   | (Inr r, w2) \<Rightarrow>
                       (case raise_for_status r of
                          Inl err \<Rightarrow> (Inl err, w2)
                        | Inr u \<Rightarrow>
                            (case write_file zip_filename (snd r) w2 of
                               Inl err \<Rightarrow> (Inl err, w2)
                             | Inr w3 \<Rightarrow> (Inr (), w3))))
             else (Inr (), say (AlreadyDownloaded zip_filename) w))
      in case downloaded of
           (Inl err, w3) \<Rightarrow> (Inl err, w3)
         | (Inr u, w3) \<Rightarrow>
             (let extract_path = path_join dest_folder sample_id
              in if \<not> isdir w3 extract_path then
                   (let w4 = say (Extracting zip_filename extract_path) w3
                    in case extractall zip_filename extract_path w4 of
                         (Inl err, w5) \<Rightarrow> (Inl err, w5)
                       | (Inr u, w5) \<Rightarrow> (Inr extract_path, w5))
                 else (Inr extract_path, say (AlreadyExtracted extract_path) w3)))"

definition motif_file_path :: "string \<Rightarrow> string \<Rightarrow> nat \<Rightarrow> string" where
  "motif_file_path extract_path sample_id motif_num =
     path_join extract_path
       (sample_id @ ''_YEP/'' @ sample_id @ ''_Motif_'' @ str_nat motif_num @ ''_FourColor.bed'')"

definition motif_columns :: "bed_row \<Rightarrow> motif_row" where
  "motif_columns r =
     \<lparr>mt_chrom = col_0 r, mt_start = col_1 r, mt_end = col_2 r, mt_col3 = col_3 r,
      mt_col4 = col_4 r, mt_strand = col_5 r\<rparr>"

definition dict_set :: "('k \<times> 'v) list \<Rightarrow> 'k \<Rightarrow> 'v \<Rightarrow> ('k \<times> 'v) list" where
  "dict_set d k v =
     (if k \<in> fst ` set d then map (\<lambda>(k', v'). if k' = k then (k', v) else (k', v')) d
      else d @ [(k, v)])"

text \<open>
  The decimal form determines the number, so the motif files of a sample have different
  paths; the filesystem is finite, so the scan of \<open>load_all_motif_bed_files\<close> ends.
\<close>

definition digit_value :: "char \<Rightarrow> nat" where
  "digit_value c = of_char c - 48"

lemma str_nat_value: "foldl (\<lambda>a c. 10 * a + digit_value c) 0 (str_nat n) = n"
proof (induction n rule: str_nat.induct)
  case (1 n)
  show ?case
  proof (cases "n < 10")
    case True
    then show ?thesis by (subst str_nat.simps) (simp add: digit_value_def)
  next
    case False
    have "n mod 10 < 10" by simp
    then have d: "digit_value (char_of (48 + n mod 10)) = n mod 10"
      by (simp add: digit_value_def)
    from False 1 show ?thesis
      by (subst str_nat.simps) (simp add: d)
  qed
qed

lemma str_nat_inj: "str_nat m = str_nat n \<Longrightarrow> m = n"
  by (metis str_nat_value)

lemma motif_file_path_inj: "inj (motif_file_path extract_path sample_id)"
proof (rule injI)
  fix m n
  let ?rel = "\<lambda>k. sample_id @ ''_YEP/'' @ sample_id @ ''_Motif_'' @ str_nat k @ ''_FourColor.bed''"
  assume eq: "motif_file_path extract_path sample_id m = motif_file_path extract_path sample_id n"
  have hd_rel: "hd (?rel m) = hd (?rel n)"
    by (cases sample_id) simp_all
  have "?rel m = ?rel n"
    using eq hd_rel by (simp add: motif_file_path_def path_join_def split: if_splits)
  then have "str_nat m = str_nat n"
    by simp
  then show "m = n"
    by (rule str_nat_inj)
qed

lemma finite_motif_files: "finite {k. isfile w (motif_file_path extract_path sample_id k)}"
proof -
  have "{k. isfile w (motif_file_path extract_path sample_id k)}
        = motif_file_path extract_path sample_id -` (fst ` set (files w))"
    by (auto simp: isfile_def map_of_eq_None_iff)
  then show ?thesis
    by (simp add: finite_vimageI motif_file_path_inj)
qed

function load_motif_loop ::
  "string \<Rightarrow> string \<Rightarrow> nat \<Rightarrow> (nat \<times> motif_row list) list \<Rightarrow> world \<Rightarrow>
   (error + (nat \<times> motif_row list) list) \<times> world" where
  "load_motif_loop extract_path sample_id motif_num motif_dfs w =
     (let motif_file = motif_file_path extract_path sample_id motif_num
      in if \<not> isfile w motif_file then (Inr motif_dfs, w)
         else (let w1 = say (ReadingMotif motif_file) w
               in case read_csv w1 motif_file of
                    Inl err \<Rightarrow> (Inl err, w1)
                  | Inr df \<Rightarrow>
                      (case set_columns df of
                         Inl err \<Rightarrow> (Inl err, w1)
                       | Inr rows \<Rightarrow>
                           load_motif_loop extract_path sample_id (motif_num + 1)
                             (dict_set motif_dfs motif_num (map motif_columns rows)) w1)))"
  by pat_completeness auto
termination
proof (relation "measure (\<lambda>(extract_path, sample_id, motif_num, motif_dfs, w).
          card {k. motif_num \<le> k \<and> isfile w (motif_file_path extract_path sample_id k)})",
       goal_cases)
  case 1
  show ?case by simp
next
  case (2 extract_path sample_id motif_num motif_dfs w motif_file w1 df rows)
  let ?present = "\<lambda>k. isfile w (motif_file_path extract_path sample_id k)"
  have same: "isfile w1 p = isfile w p" for p
    using 2 by (simp add: isfile_def say_def)
  have fin: "finite {k. motif_num \<le> k \<and> ?present k}"
    using finite_motif_files [of w extract_path sample_id] by simp
  have here: "?present motif_num"
    using 2 by simp
  have "{k. motif_num + 1 \<le> k \<and> ?present k} \<subseteq> {k. motif_num \<le> k \<and> ?present k}"
    by auto
  moreover have "motif_num \<in> {k. motif_num \<le> k \<and> ?present k}"
    using here by simp
  moreover have "motif_num \<notin> {k. motif_num + 1 \<le> k \<and> ?present k}"
    by simp
  ultimately have "{k. motif_num + 1 \<le> k \<and> ?present k} \<subset> {k. motif_num \<le> k \<and> ?present k}"
    by blast
  then have "card {k. motif_num + 1 \<le> k \<and> ?present k} < card {k. motif_num \<le> k \<and> ?present k}"
    using fin by (rule psubset_card_mono [rotated])
  then show ?case by (simp add: same)
qed

definition load_all_motif_bed_files ::
  "string \<Rightarrow> string \<Rightarrow> world \<Rightarrow> (error + (nat \<times> motif_row list) list) \<times> world" where
  "load_all_motif_bed_files extract_path sample_id w = load_motif_loop extract_path sample_id 1 [] w"

definition download_tf_chexmix_bed ::
  "env \<Rightarrow> string \<Rightarrow> string \<Rightarrow> world \<Rightarrow> (error + string) \<times> world" where
  "download_tf_chexmix_bed e tf_name dest_dir w =
     (let tf_name_uc = str_capitalize tf_name;
          filename = tf_name_uc @ ''_CX.bed'';
          url = ''https://github.com/CEGRcode/2021-Rossi_Nature/raw/master/04_ChExMix_Peaks/''
                @ filename;
          out_path = path_join dest_dir filename
      in if \<not> path_exists w out_path then
           (let w1 = say (DownloadingFrom filename url) w
            in case requests_get e url w1 of
                 (Inl err, w2) \<Rightarrow> (Inl err, w2)
               | (Inr r, w2) \<Rightarrow>
                   (case raise_for_status r of
                      Inl err \<Rightarrow> (Inl err, w2)
                    | Inr u \<Rightarrow>
                        (case write_file out_path (snd r) w2 of
                           Inl err \<Rightarrow> (Inl err, w2)
                         | Inr w3 \<Rightarrow> (Inr out_path, say (SavedTo out_path) w3))))
         else (Inr out_path, say (AlreadyDownloaded filename) w))"

definition chexmix_columns :: "bed_row \<Rightarrow> chexmix_row" where
  "chexmix_columns r =
     \<lparr>cx_chrom = col_0 r, cx_start_abf1 = col_1 r, cx_end_abf1 = col_2 r, cx_name = col_3 r,
      cx_score = col_4 r, cx_strand = col_5 r\<rparr>"

definition load_tf_chexmix_bed ::
  "env \<Rightarrow> string \<Rightarrow> string \<Rightarrow> world \<Rightarrow> (error + chexmix_row list) \<times> world" where
  "load_tf_chexmix_bed e tf_name dir w =
     (case download_tf_chexmix_bed e tf_name dir (makedirs dir w) of
        (Inl err, w1) \<Rightarrow> (Inl err, w1)
      | (Inr chexmix_bed_file, w1) \<Rightarrow>
          (case read_csv w1 chexmix_bed_file of
             Inl err \<Rightarrow> (Inl err, w1)
           | Inr df \<Rightarrow>
               (case set_columns df of
                  Inl err \<Rightarrow> (Inl err, w1)
                | Inr rows \<Rightarrow> (Inr (map chexmix_columns rows), w1))))"

text \<open>\<open>combined['sample_id'] = sample_id\<close> and \<open>combined['replicate'] = replicate_name\<close>.\<close>

definition add_sample_columns :: "string \<Rightarrow> string \<Rightarrow> joined_row \<Rightarrow> agg_row" where
  "add_sample_columns sample_id replicate_name r =
     \<lparr>ag_chrom = jr_chrom r, ag_start_abf1 = jr_start_abf1 r, ag_end_abf1 = jr_end_abf1 r,
      ag_score = jr_score r, ag_strand_four = jr_strand_four r, ag_motif = jr_motif r,
      ag_sample_id = sample_id, ag_replicate = replicate_name\<rparr>"

text \<open>
  The loop of \<open>main\<close> over \<open>replicates.iterrows()\<close>; a row is the pair of its
  \<open>Replicate\<close> and \<open>Sample ID\<close> cells. Nothing in the loop catches an exception.
\<close>

fun replicate_loop ::
  "env \<Rightarrow> chexmix_row list \<Rightarrow> (string \<times> string) list \<Rightarrow> agg_row list list \<Rightarrow> world \<Rightarrow>
   (error + agg_row list list) \<times> world" where
  "replicate_loop e chexmix_df [] aggregated_results w = (Inr aggregated_results, w)"
| "replicate_loop e chexmix_df ((replicate_name, sample_id) # rows) aggregated_results w =
     (let w1 = say (ProcessingReplicate replicate_name sample_id) w
      in case download_and_extract_zip e sample_id data_dir w1 of
           (Inl err, w2) \<Rightarrow> (Inl err, w2)
         | (Inr extract_path, w2) \<Rightarrow>
             (case load_all_motif_bed_files extract_path sample_id w2 of
                (Inl err, w3) \<Rightarrow> (Inl err, w3)
              | (Inr motif_dfs, w3) \<Rightarrow>
                  if motif_dfs = [] then
                    replicate_loop e chexmix_df rows aggregated_results
                      (say (NoMotifFiles sample_id) w3)
                  else
                    (case merge_motif_with_chexmix motif_dfs chexmix_df of
                       (combined, printed) \<Rightarrow>
                         replicate_loop e chexmix_df rows
                           (aggregated_results @
                              [map (add_sample_columns sample_id replicate_name) combined])
                           (w3\<lparr>stdout := stdout w3 @ map PrintFrame printed\<rparr>))))"

definition subset_key :: "agg_row \<Rightarrow> string \<times> int \<times> int \<times> int" where
  "subset_key r = (ag_chrom r, ag_start_abf1 r, ag_end_abf1 r, ag_score r)"

text \<open>
  \<open>pd.concat(aggregated_results).drop_duplicates(subset=['chrom', 'start_abf1',
  'end_abf1', 'score'])\<close>.
\<close>

definition final_df :: "agg_row list list \<Rightarrow> agg_row list" where
  "final_df aggregated_results = drop_duplicates_by subset_key (concat aggregated_results)"

definition output_columns :: "string list" where
  "output_columns =
     [''chr'', ''start'', ''end'', ''peakVal'', ''strand'', ''motif'', ''sample_id'', ''replicate'']"

definition output_bed_file :: "string \<Rightarrow> string" where
  "output_bed_file tf_name = path_join output_dir (str_lower tf_name @ ''_rossi_peak_w_strand.bed'')"

definition main :: "env \<Rightarrow> string \<Rightarrow> world \<Rightarrow> (error + unit) \<times> world" where
  "main e tf_name w =
     (case get_replicates_for_tf e tf_name metadata_xlsx of
        Inl err \<Rightarrow> (Inl err, w)
      | Inr replicates \<Rightarrow>
          (let w1 = say (FoundReplicates (length replicates) tf_name) w
           in case load_tf_chexmix_bed e tf_name data_dir w1 of
                (Inl err, w2) \<Rightarrow> (Inl err, w2)
              | (Inr chexmix_df, w2) \<Rightarrow>
                  (case replicate_loop e chexmix_df replicates [] w2 of
                     (Inl err, w3) \<Rightarrow> (Inl err, w3)
                   | (Inr aggregated_results, w3) \<Rightarrow>
                       if aggregated_results \<noteq> [] then
                         (let w4 = say (SavingResults (output_bed_file tf_name)) w3;
                              w5 = to_csv (final_df aggregated_results) output_columns
                                     (output_bed_file tf_name) w4
                          in (Inr (), say PipelineFinished w5))
                       else (Inr (), say NoResults w3))))"

text \<open>
  The loop of \<open>run_all_tfs\<close>: \<open>try: main(tf_name)\<close> with \<open>except Exception as e\<close>
  printing the error. Every value of \<open>error\<close> is an \<open>Exception\<close>.
\<close>

fun tf_loop :: "env \<Rightarrow> string list \<Rightarrow> world \<Rightarrow> world" where
  "tf_loop e [] w = w"
| "tf_loop e (tf_name # unique_tfs) w =
     (case main e tf_name (say (RunningPipeline tf_name) w) of
        (Inl err, w1) \<Rightarrow> tf_loop e unique_tfs (say (ErrorProcessing tf_name err) w1)
      | (Inr u, w1) \<Rightarrow> tf_loop e unique_tfs w1)"

text \<open>\<open>dropna().unique()\<close>: the cells that are not empty, each once, in order of appearance.\<close>

definition dropna_unique :: "'a option list \<Rightarrow> 'a list" where
  "dropna_unique cells = drop_duplicates (concat (map (\<lambda>c. case c of None \<Rightarrow> [] | Some v \<Rightarrow> [v]) cells))"

definition run_all_tfs :: "env \<Rightarrow> string \<Rightarrow> world \<Rightarrow> (error + unit) \<times> world" where
  "run_all_tfs e metadata_file w =
     (case xlsx e metadata_file sheet_name of
        Inl err \<Rightarrow> (Inl err, w)
      | Inr df \<Rightarrow>
          (let unique_tfs = dropna_unique (map yeast_target_common_name df)
           in (Inr (), tf_loop e unique_tfs w)))"

section \<open>Example inputs\<close>

definition peak_150 :: chexmix_row where
  "peak_150 = \<lparr>cx_chrom = ''chrI'', cx_start_abf1 = 150, cx_end_abf1 = 160, cx_name = ''p1'',
     cx_score = 5, cx_strand = ''+''\<rparr>"

definition motif_100_200 :: motif_row where
  "motif_100_200 = \<lparr>mt_chrom = ''chrI'', mt_start = 100, mt_end = 200, mt_col3 = ''m'',
     mt_col4 = 0, mt_strand = ''+''\<rparr>"

definition motif_300_400 :: motif_row where
  "motif_300_400 = \<lparr>mt_chrom = ''chrI'', mt_start = 300, mt_end = 400, mt_col3 = ''m'',
     mt_col4 = 0, mt_strand = ''-''\<rparr>"

definition row_s1 :: agg_row where
  "row_s1 = \<lparr>ag_chrom = ''chrI'', ag_start_abf1 = 150, ag_end_abf1 = 160, ag_score = 5,
     ag_strand_four = ''+'', ag_motif = 1, ag_sample_id = ''S1'', ag_replicate = ''R1''\<rparr>"

definition row_s2 :: agg_row where
  "row_s2 = \<lparr>ag_chrom = ''chrI'', ag_start_abf1 = 150, ag_end_abf1 = 160, ag_score = 5,
     ag_strand_four = ''-'', ag_motif = 2, ag_sample_id = ''S2'', ag_replicate = ''R2''\<rparr>"

text \<open>
  Reading one motif file as the loop of \<open>load_all_motif_bed_files\<close> does
  (\<open>pd.read_csv\<close>, then the six column names), and a dict of loaded tables with each
  table marked as read.
\<close>

definition parse_motif :: "world \<Rightarrow> string \<Rightarrow> error + motif_row list" where
  "parse_motif w p =
     (case read_csv w p of
        Inl err \<Rightarrow> Inl err
      | Inr df \<Rightarrow> (case set_columns df of Inl err \<Rightarrow> Inl err | Inr rows \<Rightarrow> Inr (map motif_columns rows)))"

definition loaded :: "(nat \<times> motif_row list) list \<Rightarrow> (nat \<times> (error + motif_row list)) list" where
  "loaded d = map (\<lambda>(i, t). (i, Inr t)) d"

definition bed_100_200 :: bed_row where
  "bed_100_200 = \<lparr>col_0 = ''chrI'', col_1 = 100, col_2 = 200, col_3 = ''m'', col_4 = 0, col_5 = ''+''\<rparr>"

definition gap_world :: world where
  "gap_world =
     \<lparr>files = [(''/d/S1/S1_YEP/S1_Motif_1_FourColor.bed'', Tsv 6 [bed_100_200]),
               (''/d/S1/S1_YEP/S1_Motif_3_FourColor.bed'', Tsv 6 [bed_100_200])],
      dirs = [''/d/S1''], stdout = [], io_log = []\<rparr>"

text \<open>
  The two halves of \<open>download_and_extract_zip\<close> (the download guarded by
  \<open>os.path.isfile\<close>, the extraction guarded by \<open>os.path.isdir\<close>), named so that
  they can be reasoned about one at a time, and the counts of the requests issued, the
  files saved and the archives extracted so far.
\<close>

definition zip_filename_of :: "string \<Rightarrow> string \<Rightarrow> string" where
  "zip_filename_of dest_folder sample_id = path_join dest_folder (sample_id @ ''_YEP.zip'')"

definition extract_path_of :: "string \<Rightarrow> string \<Rightarrow> string" where
  "extract_path_of dest_folder sample_id = path_join dest_folder sample_id"

definition zip_url :: "string \<Rightarrow> string" where
  "zip_url sample_id = base_url @ sample_id @ ''_YEP.zip''"

definition ensure_downloaded :: "env \<Rightarrow> string \<Rightarrow> string \<Rightarrow> world \<Rightarrow> (error + unit) \<times> world" where
  "ensure_downloaded e sample_id dest_folder w =
     (if \<not> isfile w (zip_filename_of dest_folder sample_id) then
        (case requests_get e (zip_url sample_id) (say (Downloading (zip_url sample_id)) w) of
           (Inl err, w2) \<Rightarrow> (Inl err, w2)
         | (Inr r, w2) \<Rightarrow>
             (case raise_for_status r of
                Inl err \<Rightarrow> (Inl err, w2)
              | Inr u \<Rightarrow>
                  (case write_file (zip_filename_of dest_folder sample_id) (snd r) w2 of
                     Inl err \<Rightarrow> (Inl err, w2)
                   | Inr w3 \<Rightarrow> (Inr (), w3))))
      else (Inr (), say (AlreadyDownloaded (zip_filename_of dest_folder sample_id)) w))"

definition ensure_extracted :: "string \<Rightarrow> string \<Rightarrow> world \<Rightarrow> (error + string) \<times> world" where
  "ensure_extracted sample_id dest_folder w3 =
     (if \<not> isdir w3 (extract_path_of dest_folder sample_id) then
        (case extractall (zip_filename_of dest_folder sample_id) (extract_path_of dest_folder sample_id)
                (say (Extracting (zip_filename_of dest_folder sample_id)
                        (extract_path_of dest_folder sample_id)) w3) of
           (Inl err, w5) \<Rightarrow> (Inl err, w5)
         | (Inr u, w5) \<Rightarrow> (Inr (extract_path_of dest_folder sample_id), w5))
      else (Inr (extract_path_of dest_folder sample_id),
            say (AlreadyExtracted (extract_path_of dest_folder sample_id)) w3))"

fun is_get :: "effect \<Rightarrow> bool" where
  "is_get (HttpGet url) = True"
| "is_get other = False"

fun is_write :: "effect \<Rightarrow> bool" where
  "is_write (WriteFile p) = True"
| "is_write other = False"

fun is_extract :: "effect \<Rightarrow> bool" where
  "is_extract (ExtractAll z p) = True"
| "is_extract other = False"

definition requests_made :: "world \<Rightarrow> nat" where
  "requests_made w = length (filter is_get (io_log w))"

definition files_written :: "world \<Rightarrow> nat" where
  "files_written w = length (filter is_write (io_log w))"

definition extractions :: "world \<Rightarrow> nat" where
  "extractions w = length (filter is_extract (io_log w))"

definition archive_s1 :: content where
  "archive_s1 = Zip [(''S1_YEP/S1_Motif_1_FourColor.bed'', Tsv 6 [bed_100_200])]"

definition net_s1 :: env where
  "net_s1 =
     \<lparr>http = (\<lambda>url. if url = base_url @ ''S1_YEP.zip'' then Response 200 archive_s1 else NoResponse),
      xlsx = (\<lambda>p s. Inl ExcelError)\<rparr>"

definition empty_world :: world where
  "empty_world = \<lparr>files = [], dirs = [], stdout = [], io_log = []\<rparr>"

definition d_world :: world where
  "d_world = \<lparr>files = [], dirs = [''/d''], stdout = [], io_log = []\<rparr>"




definition chexmix_url :: "string \<Rightarrow> string" where
  "chexmix_url filename =
     ''https://github.com/CEGRcode/2021-Rossi_Nature/raw/master/04_ChExMix_Peaks/'' @ filename"

definition net_abf1 :: env where
  "net_abf1 =
     \<lparr>http = (\<lambda>url. if url = chexmix_url ''Abf1_CX.bed'' then Response 200 (Tsv 6 []) else NoResponse),
      xlsx = (\<lambda>p s. Inl ExcelError)\<rparr>"

text \<open>
  The metadata filter as the specification words it: the TF-name cell equals the
  requested name when both are trimmed and compared without regard to case.
\<close>

definition spec_tf_matches :: "string \<Rightarrow> string option \<Rightarrow> bool" where
  "spec_tf_matches requested cell =
     (case cell of
        None \<Rightarrow> False
      | Some name \<Rightarrow> str_lower (str_strip name) = str_lower (str_strip requested))"

definition spec_replicates :: "meta_row list \<Rightarrow> string \<Rightarrow> (string \<times> string) list" where
  "spec_replicates df requested =
     drop_duplicates
       (map (\<lambda>row. (replicate_cell row, sample_id_cell row))
          (filter (\<lambda>row. spec_tf_matches requested (yeast_target_common_name row)) df))"

definition spaced_sheet :: "meta_row list" where
  "spaced_sheet =
     [\<lparr>yeast_target_common_name = Some ''Abf1 '', replicate_cell = ''R1'', sample_id_cell = ''S1''\<rparr>]"

definition spaced_meta :: env where
  "spaced_meta = \<lparr>http = (\<lambda>url. NoResponse), xlsx = (\<lambda>p s. Inr spaced_sheet)\<rparr>"

text \<open>
  Classes of printed lines: the lines of the fetching and loading functions, the lines
  \<open>main\<close> and what it calls can print, the line \<open>run_all_tfs\<close> prints when it starts
  a TF and the line of a replicate skipped for lack of motif files. \<open>prints_only P w w'\<close>
  says that \<open>w'\<close> has the output of \<open>w\<close> followed by lines of class \<open>P\<close> only.
\<close>

fun fetch_message :: "message \<Rightarrow> bool" where
  "fetch_message (Downloading url) = True"
| "fetch_message (AlreadyDownloaded p) = True"
| "fetch_message (Extracting z p) = True"
| "fetch_message (AlreadyExtracted p) = True"
| "fetch_message (ReadingMotif p) = True"
| "fetch_message (DownloadingFrom f url) = True"
| "fetch_message (SavedTo p) = True"
| "fetch_message other = False"

fun main_message :: "message \<Rightarrow> bool" where
  "main_message (RunningPipeline tf) = False"
| "main_message (ErrorProcessing tf err) = False"
| "main_message other = True"

fun is_running :: "message \<Rightarrow> bool" where
  "is_running (RunningPipeline tf) = True"
| "is_running other = False"

fun is_skip :: "message \<Rightarrow> bool" where
  "is_skip (NoMotifFiles sample_id) = True"
| "is_skip other = False"

definition prints_only :: "(message \<Rightarrow> bool) \<Rightarrow> world \<Rightarrow> world \<Rightarrow> bool" where
  "prints_only P w w' =
     (take (length (stdout w)) (stdout w') = stdout w
      \<and> list_all P (drop (length (stdout w)) (stdout w')))"

definition two_tf_sheet :: "meta_row list" where
  "two_tf_sheet =
     [\<lparr>yeast_target_common_name = Some ''Abf1'', replicate_cell = ''R1'', sample_id_cell = ''S1''\<rparr>,
      \<lparr>yeast_target_common_name = None, replicate_cell = ''R0'', sample_id_cell = ''S0''\<rparr>,
      \<lparr>yeast_target_common_name = Some ''Reb1'', replicate_cell = ''R1'', sample_id_cell = ''S2''\<rparr>]"

definition net_down :: env where
  "net_down = \<lparr>http = (\<lambda>url. NoResponse), xlsx = (\<lambda>p s. Inr two_tf_sheet)\<rparr>"

definition abf1_down :: world where
  "abf1_down =
     \<lparr>files = [], dirs = [data_dir],
      stdout = [RunningPipeline ''Abf1'', FoundReplicates 1 ''Abf1'',
                DownloadingFrom ''Abf1_CX.bed'' (chexmix_url ''Abf1_CX.bed'')],
      io_log = [HttpGet (chexmix_url ''Abf1_CX.bed'')]\<rparr>"

definition reb1_down :: world where
  "reb1_down =
     \<lparr>files = [], dirs = [data_dir],
      stdout = stdout abf1_down
               @ [ErrorProcessing ''Abf1'' ConnectionError, RunningPipeline ''Reb1'',
                  FoundReplicates 1 ''Reb1'',
                  DownloadingFrom ''Reb1_CX.bed'' (chexmix_url ''Reb1_CX.bed'')],
      io_log = [HttpGet (chexmix_url ''Abf1_CX.bed''), HttpGet (chexmix_url ''Reb1_CX.bed'')]\<rparr>"

fun is_replicate_line :: "message \<Rightarrow> bool" where
  "is_replicate_line (ProcessingReplicate rn sid) = True"
| "is_replicate_line (PrintFrame df) = True"
| "is_replicate_line (NoMotifFiles sid) = True"
| "is_replicate_line other = False"

fun is_to_csv :: "effect \<Rightarrow> bool" where
  "is_to_csv (ToCsv p) = True"
| "is_to_csv other = False"

definition five_columns :: content where
  "five_columns = Tsv 5 []"

definition net_five :: env where
  "net_five =
     \<lparr>http = (\<lambda>url. if url = chexmix_url ''Abf1_CX.bed'' then Response 200 five_columns
                     else NoResponse),
      xlsx = (\<lambda>p s. Inr two_tf_sheet)\<rparr>"

definition bed_150 :: bed_row where
  "bed_150 = \<lparr>col_0 = ''chrI'', col_1 = 150, col_2 = 160, col_3 = ''p1'', col_4 = 5, col_5 = ''+''\<rparr>"

definition abf1_sheet :: "meta_row list" where
  "abf1_sheet =
     [\<lparr>yeast_target_common_name = Some ''Abf1'', replicate_cell = ''R1'', sample_id_cell = ''S1''\<rparr>,
      \<lparr>yeast_target_common_name = Some ''abf1 '', replicate_cell = ''R2'', sample_id_cell = ''S2''\<rparr>]"

definition archive_s2 :: content where
  "archive_s2 = Zip [(''S2_YEP/S2_Motif_1_FourColor.bed'', Tsv 6 [bed_100_200])]"

definition net_s1_missing :: env where
  "net_s1_missing =
     \<lparr>http = (\<lambda>url. if url = chexmix_url ''Abf1_CX.bed'' then Response 200 (Tsv 6 [bed_150])
                     else if url = zip_url ''S1'' then Response 404 Blob
                     else if url = zip_url ''S2'' then Response 200 archive_s2
                     else NoResponse),
      xlsx = (\<lambda>p s. Inr abf1_sheet)\<rparr>"

definition peaks_loaded :: "nat \<Rightarrow> world" where
  "peaks_loaded n =
     \<lparr>files = [(data_dir @ ''/Abf1_CX.bed'', Tsv 6 [bed_150])], dirs = [data_dir],
      stdout = [FoundReplicates n ''Abf1'',
                DownloadingFrom ''Abf1_CX.bed'' (chexmix_url ''Abf1_CX.bed''),
                SavedTo (data_dir @ ''/Abf1_CX.bed'')],
      io_log = [HttpGet (chexmix_url ''Abf1_CX.bed''), WriteFile (data_dir @ ''/Abf1_CX.bed'')]\<rparr>"

definition s1_failed :: world where
  "s1_failed =
     (peaks_loaded 2)
       \<lparr>stdout := stdout (peaks_loaded 2) @ [ProcessingReplicate ''R1'' ''S1'', Downloading (zip_url ''S1'')],
        io_log := io_log (peaks_loaded 2) @ [HttpGet (zip_url ''S1'')]\<rparr>"

definition bed_300_400 :: bed_row where
  "bed_300_400 = \<lparr>col_0 = ''chrI'', col_1 = 300, col_2 = 400, col_3 = ''m'', col_4 = 0, col_5 = ''-''\<rparr>"

definition one_rep_sheet :: "meta_row list" where
  "one_rep_sheet =
     [\<lparr>yeast_target_common_name = Some ''Abf1'', replicate_cell = ''R1'', sample_id_cell = ''S1''\<rparr>]"

definition net_one_sample :: "(string \<times> content) list \<Rightarrow> env" where
  "net_one_sample members =
     \<lparr>http = (\<lambda>url. if url = chexmix_url ''Abf1_CX.bed'' then Response 200 (Tsv 6 [bed_150])
                     else if url = zip_url ''S1'' then Response 200 (Zip members)
                     else NoResponse),
      xlsx = (\<lambda>p s. Inr one_rep_sheet)\<rparr>"

definition far_members :: "(string \<times> content) list" where
  "far_members = [(''S1_YEP/S1_Motif_1_FourColor.bed'', Tsv 6 [bed_300_400])]"

definition s1_extracted :: "(string \<times> content) list \<Rightarrow> world" where
  "s1_extracted members =
     \<lparr>files = rev (map (\<lambda>(name, body). (data_dir @ ''/S1/'' @ name, body)) members)
               @ [(data_dir @ ''/S1_YEP.zip'', Zip members),
                  (data_dir @ ''/Abf1_CX.bed'', Tsv 6 [bed_150])],
      dirs = concat (rev (map (\<lambda>(name, body). member_dirs (data_dir @ ''/S1'') name) members))
             @ [data_dir],
      stdout = stdout (peaks_loaded 1)
               @ [ProcessingReplicate ''R1'' ''S1'', Downloading (zip_url ''S1''),
                  Extracting (data_dir @ ''/S1_YEP.zip'') (data_dir @ ''/S1'')],
      io_log = io_log (peaks_loaded 1)
               @ [HttpGet (zip_url ''S1''), WriteFile (data_dir @ ''/S1_YEP.zip''),
                  ExtractAll (data_dir @ ''/S1_YEP.zip'') (data_dir @ ''/S1'')]\<rparr>"

definition far_joined :: world where
  "far_joined =
     (say (ReadingMotif (motif_file_path (data_dir @ ''/S1'') ''S1'' 1)) (s1_extracted far_members))
       \<lparr>stdout := stdout (say (ReadingMotif (motif_file_path (data_dir @ ''/S1'') ''S1'' 1))
                            (s1_extracted far_members))
                  @ map PrintFrame [[motif_300_400]]\<rparr>"

definition no_motifs_skipped :: world where
  "no_motifs_skipped = say (NoMotifFiles ''S1'') (s1_extracted [])"

section \<open>Dropping duplicates keeps the first occurrences\<close>

lemma drop_dups_from_set:
  "set (drop_dups_from key seen xs) \<subseteq> set xs"
  by (induction xs arbitrary: seen) auto

lemma drop_dups_from_keys:
  "key ` set (drop_dups_from key seen xs) = key ` set xs - set seen"
  by (induction xs arbitrary: seen) auto

lemma drop_dups_from_distinct:
  "distinct (map key (drop_dups_from key seen xs))"
  by (induction xs arbitrary: seen) (auto simp: drop_dups_from_keys)

lemma drop_dups_from_snoc:
  "drop_dups_from key seen (xs @ [x]) =
     (if key x \<in> set seen \<union> key ` set xs then drop_dups_from key seen xs
      else drop_dups_from key seen xs @ [x])"
  by (induction xs arbitrary: seen) auto

lemma drop_dups_from_subseq:
  "subseq (drop_dups_from key seen xs) xs"
  by (induction xs arbitrary: seen) auto

lemma nths_cong_below:
  "(\<And>i. i < length xs \<Longrightarrow> (i \<in> A) = (i \<in> B)) \<Longrightarrow> nths xs A = nths xs B"
  unfolding nths_def
  by (rule arg_cong [where f = "map fst"], rule filter_cong) (auto simp: set_zip)

lemma first_occurrences_snoc:
  "first_occurrences key (xs @ [x]) =
     (if key x \<in> key ` set xs then first_occurrences key xs
      else first_occurrences key xs @ [x])"
proof -
  let ?A = "{i. \<forall>j<i. key ((xs @ [x]) ! j) \<noteq> key ((xs @ [x]) ! i)}"
  have a: "nths xs ?A = first_occurrences key xs"
    unfolding first_occurrences_def
    by (rule nths_cong_below) (auto simp: nth_append)
  have b: "(0 + length xs \<in> ?A) = (key x \<notin> key ` set xs)"
    by (auto simp: nth_append in_set_conv_nth image_iff) (metis nth_mem)
  have "first_occurrences key (xs @ [x]) = nths xs ?A @ nths [x] {j. j + length xs \<in> ?A}"
    unfolding first_occurrences_def by (simp only: nths_append)
  also have "nths [x] {j. j + length xs \<in> ?A} = (if key x \<in> key ` set xs then [] else [x])"
    using b by (simp add: nths_Cons)
  finally show ?thesis using a by simp
qed

lemma drop_duplicates_by_first:
  "drop_duplicates_by key xs = first_occurrences key xs"
proof (induction xs rule: rev_induct)
  case Nil
  show ?case by (simp add: drop_duplicates_by_def first_occurrences_def)
next
  case (snoc x xs)
  then show ?case
    by (simp add: drop_duplicates_by_def drop_dups_from_snoc first_occurrences_snoc)
qed

section \<open>The join of merge\_motif\_with\_chexmix\<close>

lemma pairs_one_reference:
  "map (select_columns k) (filter condition (map (merged_of R) (filter (\<lambda>r. cx_chrom R = mt_chrom r) motif))) =
   concat (map (\<lambda>M. if cx_chrom R = mt_chrom M \<and> mt_start M \<le> cx_start_abf1 R \<and> cx_start_abf1 R \<le> mt_end M
      then [\<lparr>jr_chrom = cx_chrom R, jr_start_abf1 = cx_start_abf1 R, jr_end_abf1 = cx_end_abf1 R,
       jr_score = cx_score R, jr_strand_four = mt_strand M, jr_motif = k\<rparr>] else []) motif)"
  by (induction motif) (auto simp: condition_def merged_of_def select_columns_def)

lemma filtered_spec_pairs:
  "map (select_columns k) (filter condition (pd_merge reference motif)) = spec_pairs k reference motif"
  unfolding pd_merge_def spec_pairs_def
  by (induction reference) (simp_all add: pairs_one_reference)

lemma merge_loop_eq:
  "merge_loop items chexmix_df all_results printed =
     (all_results @ map (\<lambda>(k, motif). spec_pairs k chexmix_df motif) items, printed @ map snd items)"
  by (induction items chexmix_df all_results printed rule: merge_loop.induct)
     (simp_all add: filtered_spec_pairs)

lemma merge_eq_spec:
  "fst (merge_motif_with_chexmix motif_dfs chexmix_df) = drop_duplicates (spec_join motif_dfs chexmix_df)"
  by (cases motif_dfs) (simp_all add: merge_motif_with_chexmix_def merge_loop_eq spec_join_def drop_duplicates_def drop_duplicates_by_def)

lemma spec_pairs_empty: "spec_pairs k reference [] = []" "spec_pairs k [] motif = []"
  by (simp_all add: spec_pairs_def)

lemma spec_join_skip: "spec_join (items1 @ (k, []) # items2) reference = spec_join (items1 @ items2) reference"
  by (simp add: spec_join_def spec_pairs_def)

lemma spec_join_no_reference: "spec_join items [] = []"
  by (simp add: spec_join_def spec_pairs_def)

section \<open>The result of the join and the final table\<close>

text \<open>
  C1. For every reference peak table and every dict of motif tables,
  \<open>merge_motif_with_chexmix\<close> returns the join as the specification words it, with exact
  duplicates dropped (the first occurrence stays): over the motif indices in dict order,
  the pairs of a reference row and a motif row on the same chromosome whose reference start
  lies in the closed motif interval, projected to chrom, reference start, reference end,
  reference score and motif strand, and tagged with the motif index. The result has no two
  equal rows and holds exactly the rows of that join. In the filtered frame of one motif,
  a pair of rows with equal chrom is present iff the reference start lies in the motif
  interval. An empty motif table contributes nothing, an empty reference table or an empty
  dict gives an empty result, and the function always returns.
\<close>

theorem merge_motif_with_chexmix_join:
  "fst (merge_motif_with_chexmix motif_dfs chexmix_df) = drop_duplicates (spec_join motif_dfs chexmix_df)
   \<and> drop_duplicates (spec_join motif_dfs chexmix_df)
       = first_occurrences (\<lambda>row. row) (spec_join motif_dfs chexmix_df)
   \<and> distinct (fst (merge_motif_with_chexmix motif_dfs chexmix_df))
   \<and> set (fst (merge_motif_with_chexmix motif_dfs chexmix_df)) = set (spec_join motif_dfs chexmix_df)
   \<and> (R \<in> set chexmix_df \<longrightarrow> M \<in> set motif_df \<longrightarrow> cx_chrom R = mt_chrom M \<longrightarrow>
        (merged_of R M \<in> set (filter condition (pd_merge chexmix_df motif_df)))
        = (mt_start M \<le> cx_start_abf1 R \<and> cx_start_abf1 R \<le> mt_end M))
   \<and> fst (merge_motif_with_chexmix (items1 @ (k, []) # items2) chexmix_df)
       = fst (merge_motif_with_chexmix (items1 @ items2) chexmix_df)
   \<and> fst (merge_motif_with_chexmix motif_dfs []) = []
   \<and> fst (merge_motif_with_chexmix [] chexmix_df) = []"
proof -
  let ?out = "fst (merge_motif_with_chexmix motif_dfs chexmix_df)"
  have eq: "?out = drop_duplicates (spec_join motif_dfs chexmix_df)"
    by (rule merge_eq_spec)
  have first: "drop_duplicates (spec_join motif_dfs chexmix_df)
       = first_occurrences (\<lambda>row. row) (spec_join motif_dfs chexmix_df)"
    by (simp add: drop_duplicates_def drop_duplicates_by_first)
  have "distinct (map (\<lambda>row. row) ?out)"
    unfolding eq drop_duplicates_def drop_duplicates_by_def by (rule drop_dups_from_distinct)
  then have dist: "distinct ?out" by simp
  have "(\<lambda>row. row) ` set ?out = (\<lambda>row. row) ` set (spec_join motif_dfs chexmix_df) - set []"
    unfolding eq drop_duplicates_def drop_duplicates_by_def by (rule drop_dups_from_keys)
  then have same: "set ?out = set (spec_join motif_dfs chexmix_df)" by simp
  have pair: "R \<in> set chexmix_df \<longrightarrow> M \<in> set motif_df \<longrightarrow> cx_chrom R = mt_chrom M \<longrightarrow>
        (merged_of R M \<in> set (filter condition (pd_merge chexmix_df motif_df)))
        = (mt_start M \<le> cx_start_abf1 R \<and> cx_start_abf1 R \<le> mt_end M)"
  proof (intro impI)
    assume "R \<in> set chexmix_df" "M \<in> set motif_df" "cx_chrom R = mt_chrom M"
    then have "merged_of R M \<in> set (pd_merge chexmix_df motif_df)"
      by (auto simp: pd_merge_def)
    moreover have "condition (merged_of R M)
        = (mt_start M \<le> cx_start_abf1 R \<and> cx_start_abf1 R \<le> mt_end M)"
      by (simp add: condition_def merged_of_def)
    ultimately show "(merged_of R M \<in> set (filter condition (pd_merge chexmix_df motif_df)))
        = (mt_start M \<le> cx_start_abf1 R \<and> cx_start_abf1 R \<le> mt_end M)"
      by simp
  qed
  have skip: "fst (merge_motif_with_chexmix (items1 @ (k, []) # items2) chexmix_df)
       = fst (merge_motif_with_chexmix (items1 @ items2) chexmix_df)"
    by (simp only: merge_eq_spec spec_join_skip)
  have noref: "fst (merge_motif_with_chexmix motif_dfs []) = []"
    by (simp add: merge_eq_spec spec_join_no_reference drop_duplicates_def drop_duplicates_by_def)
  have nomotif: "fst (merge_motif_with_chexmix [] chexmix_df) = []"
    by (simp add: merge_motif_with_chexmix_def)
  from eq first dist same pair skip noref nomotif show ?thesis
    by (intro conjI)
qed

theorem merge_motif_with_chexmix_join_witness:
  "fst (merge_motif_with_chexmix [(1, [motif_100_200, motif_100_200]), (2, [motif_300_400]), (3, [])] [peak_150])
     = [\<lparr>jr_chrom = ''chrI'', jr_start_abf1 = 150, jr_end_abf1 = 160, jr_score = 5,
         jr_strand_four = ''+'', jr_motif = 1\<rparr>]
   \<and> peak_150 \<in> set [peak_150] \<and> motif_100_200 \<in> set [motif_100_200, motif_100_200]
   \<and> cx_chrom peak_150 = mt_chrom motif_100_200
   \<and> merged_of peak_150 motif_100_200
        \<in> set (filter condition (pd_merge [peak_150] [motif_100_200, motif_100_200]))"
  using merge_motif_with_chexmix_join [of "[(1, [motif_100_200, motif_100_200]), (2, [motif_300_400]), (3, [])]"
      "[peak_150]" peak_150 motif_100_200 "[motif_100_200, motif_100_200]"]
  by (simp add: spec_join_def spec_pairs_def drop_duplicates_def drop_duplicates_by_def
      peak_150_def motif_100_200_def motif_300_400_def)

lemma first_occurrences_set:
  "set (first_occurrences key xs) = {xs ! i | i. i < length xs \<and> (\<forall>j<i. key (xs ! j) \<noteq> key (xs ! i))}"
  by (auto simp: first_occurrences_def set_nths)

text \<open>
  C2. The final table of \<open>main\<close> is the concatenation of the per-replicate tables in
  list order with every row dropped that agrees with an earlier row on the four columns
  chrom, start (\<open>start_abf1\<close>), end (\<open>end_abf1\<close>) and score, whatever its other columns
  hold: the key \<open>drop_duplicates\<close> compares is exactly these four columns, and the result
  is the list of the rows at the positions no earlier position agrees with on them, in
  the order of the concatenation. The keys of the result are pairwise different and are
  the keys of the input. Of two input rows that agree on the four columns and differ in
  sample\_id or replicate, the one at the first position holding that key is in the
  output and the later one is not. A row that differs from every earlier row in at
  least one of the four columns is kept: nothing but such duplicates is removed.
\<close>

theorem final_df_keeps_first:
  "(subset_key a = subset_key b) =
     (ag_chrom a = ag_chrom b \<and> ag_start_abf1 a = ag_start_abf1 b
      \<and> ag_end_abf1 a = ag_end_abf1 b \<and> ag_score a = ag_score b)
   \<and> final_df aggregated_results =
       nths (concat aggregated_results)
         {n. \<forall>l<n. \<not> (ag_chrom (concat aggregated_results ! l) = ag_chrom (concat aggregated_results ! n)
                     \<and> ag_start_abf1 (concat aggregated_results ! l) = ag_start_abf1 (concat aggregated_results ! n)
                     \<and> ag_end_abf1 (concat aggregated_results ! l) = ag_end_abf1 (concat aggregated_results ! n)
                     \<and> ag_score (concat aggregated_results ! l) = ag_score (concat aggregated_results ! n))}
   \<and> final_df aggregated_results = first_occurrences subset_key (concat aggregated_results)
   \<and> distinct (map (\<lambda>r. (ag_chrom r, ag_start_abf1 r, ag_end_abf1 r, ag_score r))
                 (final_df aggregated_results))
   \<and> (\<lambda>r. (ag_chrom r, ag_start_abf1 r, ag_end_abf1 r, ag_score r)) ` set (final_df aggregated_results)
       = (\<lambda>r. (ag_chrom r, ag_start_abf1 r, ag_end_abf1 r, ag_score r)) ` set (concat aggregated_results)
   \<and> subseq (final_df aggregated_results) (concat aggregated_results)
   \<and> (i < j \<longrightarrow> j < length (concat aggregated_results) \<longrightarrow>
        (\<forall>l<i. subset_key (concat aggregated_results ! l) \<noteq> subset_key (concat aggregated_results ! i)) \<longrightarrow>
        ag_chrom (concat aggregated_results ! i) = ag_chrom (concat aggregated_results ! j) \<longrightarrow>
        ag_start_abf1 (concat aggregated_results ! i) = ag_start_abf1 (concat aggregated_results ! j) \<longrightarrow>
        ag_end_abf1 (concat aggregated_results ! i) = ag_end_abf1 (concat aggregated_results ! j) \<longrightarrow>
        ag_score (concat aggregated_results ! i) = ag_score (concat aggregated_results ! j) \<longrightarrow>
        (ag_sample_id (concat aggregated_results ! i) \<noteq> ag_sample_id (concat aggregated_results ! j)
         \<or> ag_replicate (concat aggregated_results ! i) \<noteq> ag_replicate (concat aggregated_results ! j)) \<longrightarrow>
        concat aggregated_results ! i \<in> set (final_df aggregated_results)
        \<and> concat aggregated_results ! j \<notin> set (final_df aggregated_results))
   \<and> (k < length (concat aggregated_results) \<longrightarrow>
        (\<forall>l<k. ag_chrom (concat aggregated_results ! l) \<noteq> ag_chrom (concat aggregated_results ! k)
               \<or> ag_start_abf1 (concat aggregated_results ! l) \<noteq> ag_start_abf1 (concat aggregated_results ! k)
               \<or> ag_end_abf1 (concat aggregated_results ! l) \<noteq> ag_end_abf1 (concat aggregated_results ! k)
               \<or> ag_score (concat aggregated_results ! l) \<noteq> ag_score (concat aggregated_results ! k)) \<longrightarrow>
        concat aggregated_results ! k \<in> set (final_df aggregated_results))"
proof -
  let ?c = "concat aggregated_results"
  let ?f = "final_df aggregated_results"
  let ?key = "\<lambda>r. (ag_chrom r, ag_start_abf1 r, ag_end_abf1 r, ag_score r)"
  have key: "subset_key = ?key"
    by (rule ext) (simp add: subset_key_def)
  have key_eq: "(subset_key x = subset_key y) =
     (ag_chrom x = ag_chrom y \<and> ag_start_abf1 x = ag_start_abf1 y
      \<and> ag_end_abf1 x = ag_end_abf1 y \<and> ag_score x = ag_score y)" for x y
    by (simp add: subset_key_def)
  have first: "?f = first_occurrences subset_key ?c"
    by (simp add: final_df_def drop_duplicates_by_first)
  have positions: "?f = nths ?c
         {n. \<forall>l<n. \<not> (ag_chrom (?c ! l) = ag_chrom (?c ! n)
                     \<and> ag_start_abf1 (?c ! l) = ag_start_abf1 (?c ! n)
                     \<and> ag_end_abf1 (?c ! l) = ag_end_abf1 (?c ! n)
                     \<and> ag_score (?c ! l) = ag_score (?c ! n))}"
    unfolding first first_occurrences_def key_eq ..
  have "distinct (map subset_key ?f)"
    unfolding final_df_def drop_duplicates_by_def by (rule drop_dups_from_distinct)
  then have dist: "distinct (map ?key ?f)"
    by (simp only: key)
  have "subset_key ` set ?f = subset_key ` set ?c - set []"
    unfolding final_df_def drop_duplicates_by_def by (rule drop_dups_from_keys)
  then have "subset_key ` set ?f = subset_key ` set ?c" by simp
  then have keys: "?key ` set ?f = ?key ` set ?c"
    by (simp only: key)
  have sub: "subseq ?f ?c"
    unfolding final_df_def drop_duplicates_by_def by (rule drop_dups_from_subseq)
  have two: "i < j \<longrightarrow> j < length ?c \<longrightarrow>
        (\<forall>l<i. subset_key (?c ! l) \<noteq> subset_key (?c ! i)) \<longrightarrow>
        ag_chrom (?c ! i) = ag_chrom (?c ! j) \<longrightarrow>
        ag_start_abf1 (?c ! i) = ag_start_abf1 (?c ! j) \<longrightarrow>
        ag_end_abf1 (?c ! i) = ag_end_abf1 (?c ! j) \<longrightarrow>
        ag_score (?c ! i) = ag_score (?c ! j) \<longrightarrow>
        (ag_sample_id (?c ! i) \<noteq> ag_sample_id (?c ! j) \<or> ag_replicate (?c ! i) \<noteq> ag_replicate (?c ! j)) \<longrightarrow>
        ?c ! i \<in> set ?f \<and> ?c ! j \<notin> set ?f"
  proof (intro impI)
    assume ij: "i < j" and j: "j < length ?c"
      and fi: "\<forall>l<i. subset_key (?c ! l) \<noteq> subset_key (?c ! i)"
      and cols: "ag_chrom (?c ! i) = ag_chrom (?c ! j)"
        "ag_start_abf1 (?c ! i) = ag_start_abf1 (?c ! j)"
        "ag_end_abf1 (?c ! i) = ag_end_abf1 (?c ! j)"
        "ag_score (?c ! i) = ag_score (?c ! j)"
      and differ: "ag_sample_id (?c ! i) \<noteq> ag_sample_id (?c ! j) \<or> ag_replicate (?c ! i) \<noteq> ag_replicate (?c ! j)"
    have same: "subset_key (?c ! i) = subset_key (?c ! j)"
      using cols by (simp only: key_eq simp_thms)
    have kept: "?c ! i \<in> set ?f"
      unfolding first first_occurrences_set using ij j fi by auto
    have "?c ! j \<notin> set ?f"
    proof
      assume "?c ! j \<in> set ?f"
      then obtain m where m: "m < length ?c" "?c ! j = ?c ! m"
        and fm: "\<forall>l<m. subset_key (?c ! l) \<noteq> subset_key (?c ! m)"
        unfolding first first_occurrences_set by auto
      have "\<not> i < m" using fm m same by auto
      moreover have "\<not> m < i" using fi m same by auto
      ultimately have "m = i" by simp
      with m differ show False by simp
    qed
    with kept show "?c ! i \<in> set ?f \<and> ?c ! j \<notin> set ?f" ..
  qed
  have fresh: "k < length ?c \<longrightarrow>
        (\<forall>l<k. ag_chrom (?c ! l) \<noteq> ag_chrom (?c ! k)
               \<or> ag_start_abf1 (?c ! l) \<noteq> ag_start_abf1 (?c ! k)
               \<or> ag_end_abf1 (?c ! l) \<noteq> ag_end_abf1 (?c ! k)
               \<or> ag_score (?c ! l) \<noteq> ag_score (?c ! k)) \<longrightarrow>
        ?c ! k \<in> set ?f"
  proof (intro impI)
    assume k: "k < length ?c"
      and new: "\<forall>l<k. ag_chrom (?c ! l) \<noteq> ag_chrom (?c ! k)
               \<or> ag_start_abf1 (?c ! l) \<noteq> ag_start_abf1 (?c ! k)
               \<or> ag_end_abf1 (?c ! l) \<noteq> ag_end_abf1 (?c ! k)
               \<or> ag_score (?c ! l) \<noteq> ag_score (?c ! k)"
    have "\<forall>l<k. subset_key (?c ! l) \<noteq> subset_key (?c ! k)"
      using new by (simp only: key_eq de_Morgan_conj)
    with k show "?c ! k \<in> set ?f"
      unfolding first first_occurrences_set by auto
  qed
  from key_eq [of a b] positions first dist keys sub two fresh show ?thesis by (intro conjI)
qed

theorem final_df_keeps_first_witness:
  "(0::nat) < 5 \<and> 5 < length (concat [[row_s1, row_s1\<lparr>ag_score := 6\<rparr>, row_s1\<lparr>ag_end_abf1 := 161\<rparr>],
                                      [row_s1\<lparr>ag_start_abf1 := 151\<rparr>, row_s1\<lparr>ag_chrom := ''chrII''\<rparr>, row_s2, row_s1]])
   \<and> concat [[row_s1, row_s1\<lparr>ag_score := 6\<rparr>, row_s1\<lparr>ag_end_abf1 := 161\<rparr>],
             [row_s1\<lparr>ag_start_abf1 := 151\<rparr>, row_s1\<lparr>ag_chrom := ''chrII''\<rparr>, row_s2, row_s1]] ! 0 = row_s1
   \<and> concat [[row_s1, row_s1\<lparr>ag_score := 6\<rparr>, row_s1\<lparr>ag_end_abf1 := 161\<rparr>],
             [row_s1\<lparr>ag_start_abf1 := 151\<rparr>, row_s1\<lparr>ag_chrom := ''chrII''\<rparr>, row_s2, row_s1]] ! 5 = row_s2
   \<and> concat [[row_s1, row_s1\<lparr>ag_score := 6\<rparr>, row_s1\<lparr>ag_end_abf1 := 161\<rparr>],
             [row_s1\<lparr>ag_start_abf1 := 151\<rparr>, row_s1\<lparr>ag_chrom := ''chrII''\<rparr>, row_s2, row_s1]] ! 1
       = row_s1\<lparr>ag_score := 6\<rparr>
   \<and> ag_chrom row_s1 = ag_chrom row_s2 \<and> ag_start_abf1 row_s1 = ag_start_abf1 row_s2
   \<and> ag_end_abf1 row_s1 = ag_end_abf1 row_s2 \<and> ag_score row_s1 = ag_score row_s2
   \<and> ag_sample_id row_s1 \<noteq> ag_sample_id row_s2 \<and> ag_strand_four row_s1 \<noteq> ag_strand_four row_s2
   \<and> ag_score row_s1 \<noteq> ag_score (row_s1\<lparr>ag_score := 6\<rparr>)
   \<and> row_s1 \<in> set (final_df [[row_s1, row_s1\<lparr>ag_score := 6\<rparr>, row_s1\<lparr>ag_end_abf1 := 161\<rparr>],
                              [row_s1\<lparr>ag_start_abf1 := 151\<rparr>, row_s1\<lparr>ag_chrom := ''chrII''\<rparr>, row_s2, row_s1]])
   \<and> row_s2 \<notin> set (final_df [[row_s1, row_s1\<lparr>ag_score := 6\<rparr>, row_s1\<lparr>ag_end_abf1 := 161\<rparr>],
                              [row_s1\<lparr>ag_start_abf1 := 151\<rparr>, row_s1\<lparr>ag_chrom := ''chrII''\<rparr>, row_s2, row_s1]])
   \<and> row_s1\<lparr>ag_score := 6\<rparr>
        \<in> set (final_df [[row_s1, row_s1\<lparr>ag_score := 6\<rparr>, row_s1\<lparr>ag_end_abf1 := 161\<rparr>],
                          [row_s1\<lparr>ag_start_abf1 := 151\<rparr>, row_s1\<lparr>ag_chrom := ''chrII''\<rparr>, row_s2, row_s1]])
   \<and> final_df [[row_s1, row_s1\<lparr>ag_score := 6\<rparr>, row_s1\<lparr>ag_end_abf1 := 161\<rparr>],
               [row_s1\<lparr>ag_start_abf1 := 151\<rparr>, row_s1\<lparr>ag_chrom := ''chrII''\<rparr>, row_s2, row_s1]]
       = [row_s1, row_s1\<lparr>ag_score := 6\<rparr>, row_s1\<lparr>ag_end_abf1 := 161\<rparr>,
          row_s1\<lparr>ag_start_abf1 := 151\<rparr>, row_s1\<lparr>ag_chrom := ''chrII''\<rparr>]"
proof -
  let ?a = "[[row_s1, row_s1\<lparr>ag_score := 6\<rparr>, row_s1\<lparr>ag_end_abf1 := 161\<rparr>],
             [row_s1\<lparr>ag_start_abf1 := 151\<rparr>, row_s1\<lparr>ag_chrom := ''chrII''\<rparr>, row_s2, row_s1]]"
  note t = final_df_keeps_first [of row_s1 row_s2 ?a 0 5 1]
  note two = t [THEN conjunct2, THEN conjunct2, THEN conjunct2, THEN conjunct2, THEN conjunct2,
      THEN conjunct2, THEN conjunct1]
  note fresh = t [THEN conjunct2, THEN conjunct2, THEN conjunct2, THEN conjunct2, THEN conjunct2,
      THEN conjunct2, THEN conjunct2]
  have dup: "row_s1 \<in> set (final_df ?a) \<and> row_s2 \<notin> set (final_df ?a)"
    using two by (simp add: row_s1_def row_s2_def)
  have kept: "row_s1\<lparr>ag_score := 6\<rparr> \<in> set (final_df ?a)"
    using fresh by (simp add: row_s1_def)
  have cols: "ag_chrom row_s1 = ag_chrom row_s2 \<and> ag_start_abf1 row_s1 = ag_start_abf1 row_s2
      \<and> ag_end_abf1 row_s1 = ag_end_abf1 row_s2 \<and> ag_score row_s1 = ag_score row_s2
      \<and> ag_sample_id row_s1 \<noteq> ag_sample_id row_s2 \<and> ag_strand_four row_s1 \<noteq> ag_strand_four row_s2
      \<and> ag_score row_s1 \<noteq> ag_score (row_s1\<lparr>ag_score := 6\<rparr>)"
    by (simp add: row_s1_def row_s2_def)
  have ev: "final_df ?a = [row_s1, row_s1\<lparr>ag_score := 6\<rparr>, row_s1\<lparr>ag_end_abf1 := 161\<rparr>,
          row_s1\<lparr>ag_start_abf1 := 151\<rparr>, row_s1\<lparr>ag_chrom := ''chrII''\<rparr>]"
    by (simp add: final_df_def drop_duplicates_by_def subset_key_def row_s1_def row_s2_def)
  have pos: "(0::nat) < 5 \<and> 5 < length (concat ?a) \<and> concat ?a ! 0 = row_s1
      \<and> concat ?a ! 5 = row_s2 \<and> concat ?a ! 1 = row_s1\<lparr>ag_score := 6\<rparr>"
    by simp
  from pos cols dup kept ev show ?thesis
    by blast
qed

section \<open>The scan of load\_all\_motif\_bed\_files\<close>

declare load_motif_loop.simps [simp del]

lemma say_fields [simp]:
  "files (say m w) = files w" "dirs (say m w) = dirs w" "io_log (say m w) = io_log w"
  "stdout (say m w) = stdout w @ [m]"
  by (simp_all add: say_def)

lemma say_queries [simp]:
  "isfile (say m w) p = isfile w p" "isdir (say m w) p = isdir w p"
  "read_csv (say m w) p = read_csv w p" "path_exists (say m w) p = path_exists w p"
  by (simp_all add: isfile_def isdir_def read_csv_def path_exists_def)

lemma parse_motif_say [simp]: "parse_motif (say m w) p = parse_motif w p"
  by (simp add: parse_motif_def)

lemma loop_absent:
  "\<not> isfile w (motif_file_path ep sid m) \<Longrightarrow> load_motif_loop ep sid m d w = (Inr d, w)"
  by (subst load_motif_loop.simps) simp

lemma loop_good:
  "isfile w (motif_file_path ep sid m) \<Longrightarrow> parse_motif w (motif_file_path ep sid m) = Inr t \<Longrightarrow>
   load_motif_loop ep sid m d w =
     load_motif_loop ep sid (m + 1) (dict_set d m t) (say (ReadingMotif (motif_file_path ep sid m)) w)"
  by (subst load_motif_loop.simps) (auto simp: parse_motif_def Let_def split: sum.splits)

lemma loop_bad:
  "isfile w (motif_file_path ep sid m) \<Longrightarrow> parse_motif w (motif_file_path ep sid m) = Inl err \<Longrightarrow>
   load_motif_loop ep sid m d w = (Inl err, say (ReadingMotif (motif_file_path ep sid m)) w)"
  by (subst load_motif_loop.simps) (auto simp: parse_motif_def Let_def split: sum.splits)

lemma loaded_dict_set:
  "\<forall>k\<in>fst ` set d. k < m \<Longrightarrow> loaded (dict_set d m t) = loaded d @ [(m, Inr t)]"
  by (auto simp: loaded_def dict_set_def)

lemma loop_result:
  "load_motif_loop ep sid m d w = (res, w') \<Longrightarrow> \<forall>k\<in>fst ` set d. k < m \<Longrightarrow>
   files w' = files w \<and> dirs w' = dirs w \<and> io_log w' = io_log w \<and>
   (\<exists>n\<ge>m. (\<forall>i. m \<le> i \<and> i < n \<longrightarrow> isfile w (motif_file_path ep sid i)) \<and>
      (case res of
         Inr d' \<Rightarrow> \<not> isfile w (motif_file_path ep sid n)
                 \<and> loaded d' = loaded d @ map (\<lambda>i. (i, parse_motif w (motif_file_path ep sid i))) [m..<n]
       | Inl err \<Rightarrow> isfile w (motif_file_path ep sid n) \<and> parse_motif w (motif_file_path ep sid n) = Inl err))"
proof (induction ep sid m d w arbitrary: res w' rule: load_motif_loop.induct)
  case (1 ep sid m d w)
  let ?p = "motif_file_path ep sid m"
  let ?goal = "\<lambda>n. n \<ge> m \<and> (\<forall>i. m \<le> i \<and> i < n \<longrightarrow> isfile w (motif_file_path ep sid i)) \<and>
      (case res of
         Inr d' \<Rightarrow> \<not> isfile w (motif_file_path ep sid n)
                 \<and> loaded d' = loaded d @ map (\<lambda>i. (i, parse_motif w (motif_file_path ep sid i))) [m..<n]
       | Inl err \<Rightarrow> isfile w (motif_file_path ep sid n) \<and> parse_motif w (motif_file_path ep sid n) = Inl err)"
  show ?case
  proof (cases "isfile w ?p")
    case False
    with 1(2) have r: "res = Inr d" "w' = w" by (simp_all add: loop_absent)
    with False have "?goal m" by auto
    with r show ?thesis by blast
  next
    case True
    show ?thesis
    proof (cases "parse_motif w ?p")
      case (Inl err)
      from loop_bad [OF True Inl, of d] 1(2) have r: "res = Inl err" "w' = say (ReadingMotif ?p) w"
        by simp_all
      with True Inl have "?goal m" by auto
      with r show ?thesis by (simp del: One_nat_def) blast
    next
      case (Inr t)
      obtain df rows where df: "read_csv (say (ReadingMotif ?p) w) ?p = Inr df" "set_columns df = Inr rows"
        and t: "t = map motif_columns rows"
        using Inr by (auto simp: parse_motif_def split: sum.splits)
      have step: "load_motif_loop ep sid (m + 1) (dict_set d m t) (say (ReadingMotif ?p) w) = (res, w')"
        using loop_good [OF True Inr, of d] 1(2) by simp
      have keys: "\<forall>k\<in>fst ` set (dict_set d m t). k < m + 1"
        using 1(3) by (auto simp: dict_set_def)
      note ih = 1(1) [OF refl _ refl df(1) df(2) step [unfolded t] keys [unfolded t]]
      have "files w' = files w \<and> dirs w' = dirs w \<and> io_log w' = io_log w \<and>
        (\<exists>n\<ge>m + 1. (\<forall>i. m + 1 \<le> i \<and> i < n \<longrightarrow> isfile w (motif_file_path ep sid i)) \<and>
        (case res of
          Inr d' \<Rightarrow> \<not> isfile w (motif_file_path ep sid n)
                 \<and> loaded d' = loaded (dict_set d m t) @ map (\<lambda>i. (i, parse_motif w (motif_file_path ep sid i))) [m + 1..<n]
        | Inl err \<Rightarrow> isfile w (motif_file_path ep sid n) \<and> parse_motif w (motif_file_path ep sid n) = Inl err))"
        using ih True by (simp add: t cong: sum.case_cong)
      then obtain n where same: "files w' = files w \<and> dirs w' = dirs w \<and> io_log w' = io_log w"
        and n: "n \<ge> m + 1" "\<forall>i. m + 1 \<le> i \<and> i < n \<longrightarrow> isfile w (motif_file_path ep sid i)"
        and r: "case res of
          Inr d' \<Rightarrow> \<not> isfile w (motif_file_path ep sid n)
                 \<and> loaded d' = loaded (dict_set d m t) @ map (\<lambda>i. (i, parse_motif w (motif_file_path ep sid i))) [m + 1..<n]
        | Inl err \<Rightarrow> isfile w (motif_file_path ep sid n) \<and> parse_motif w (motif_file_path ep sid n) = Inl err"
        by blast
      have all: "\<forall>i. m \<le> i \<and> i < n \<longrightarrow> isfile w (motif_file_path ep sid i)"
        using n(2) True by (metis Suc_eq_plus1 Suc_leI le_neq_implies_less)
      have upt: "[m..<n] = m # [m + 1..<n]"
        using n(1) by (simp add: upt_conv_Cons)
      have "?goal n"
        using n(1) all r Inr by (simp add: upt loaded_dict_set [OF 1(3)] split: sum.splits)
      with same show ?thesis by blast
    qed
  qed
qed

lemma loaded_keys:
  assumes "loaded d = map (\<lambda>i. (i, f i)) xs"
  shows "map fst d = xs"
proof -
  have "map fst (loaded d) = map fst (map (\<lambda>i. (i, f i)) xs)"
    using assms by simp
  then show ?thesis
    by (simp add: loaded_def comp_def case_prod_unfold)
qed

text \<open>
  C5. \<open>load_all_motif_bed_files\<close> always returns. It scans the motif indices 1, 2, 3,
  ... and stops at the first index whose file is absent: when it returns a dict, there is
  an \<open>n\<close> with the files of 1 to \<open>n\<close> present and the file of \<open>n + 1\<close> absent,
  the keys of the dict are exactly 1 to \<open>n\<close> in this order, and the table of a key is
  the parsed file of that index. (When it raises, the files up to the one that fails to
  parse are present.) With the files of motif 1 and motif 3 but not motif 2 the result is
  the dict holding only motif 1; with no file for motif 1 the result is the empty dict
  and nothing else happens.
\<close>

theorem load_all_motif_bed_files_contiguous:
  "load_all_motif_bed_files ep sid w = (res, w') \<Longrightarrow>
   (\<exists>n. (\<forall>i\<in>{1..n}. isfile w (motif_file_path ep sid i)) \<and>
      (case res of
         Inr motif_dfs \<Rightarrow>
           \<not> isfile w (motif_file_path ep sid (n + 1)) \<and> map fst motif_dfs = [1..<n + 1]
           \<and> loaded motif_dfs = map (\<lambda>i. (i, parse_motif w (motif_file_path ep sid i))) [1..<n + 1]
       | Inl err \<Rightarrow>
           isfile w (motif_file_path ep sid (n + 1))
           \<and> parse_motif w (motif_file_path ep sid (n + 1)) = Inl err))
   \<and> (isfile w (motif_file_path ep sid 1) \<and> \<not> isfile w (motif_file_path ep sid 2)
        \<and> parse_motif w (motif_file_path ep sid 1) = Inr t \<longrightarrow> res = Inr [(1, t)])
   \<and> (\<not> isfile w (motif_file_path ep sid 1) \<longrightarrow> res = Inr [] \<and> w' = w)"
proof (intro conjI impI)
  assume run: "load_all_motif_bed_files ep sid w = (res, w')"
  then have "load_motif_loop ep sid 1 [] w = (res, w')"
    by (simp add: load_all_motif_bed_files_def)
  from loop_result [OF this] obtain m where m: "m \<ge> 1"
    "\<forall>i. 1 \<le> i \<and> i < m \<longrightarrow> isfile w (motif_file_path ep sid i)"
    "case res of
       Inr d' \<Rightarrow> \<not> isfile w (motif_file_path ep sid m)
                 \<and> loaded d' = loaded [] @ map (\<lambda>i. (i, parse_motif w (motif_file_path ep sid i))) [1..<m]
     | Inl err \<Rightarrow> isfile w (motif_file_path ep sid m) \<and> parse_motif w (motif_file_path ep sid m) = Inl err"
    by auto
  define k where "k = m - 1"
  have mk: "m = k + 1"
    using m(1) by (simp add: k_def)
  have below: "\<forall>i\<in>{1..k}. isfile w (motif_file_path ep sid i)"
    using m(2) unfolding mk by auto
  have "case res of
         Inr motif_dfs \<Rightarrow>
           \<not> isfile w (motif_file_path ep sid (k + 1)) \<and> map fst motif_dfs = [1..<k + 1]
           \<and> loaded motif_dfs = map (\<lambda>i. (i, parse_motif w (motif_file_path ep sid i))) [1..<k + 1]
       | Inl err \<Rightarrow>
           isfile w (motif_file_path ep sid (k + 1))
           \<and> parse_motif w (motif_file_path ep sid (k + 1)) = Inl err"
  proof (cases res)
    case (Inl err)
    from m(3) [unfolded mk Inl] show ?thesis
      unfolding Inl by simp
  next
    case (Inr d')
    from m(3) [unfolded mk Inr]
    have absent: "\<not> isfile w (motif_file_path ep sid (k + 1))"
      and l: "loaded d' = map (\<lambda>i. (i, parse_motif w (motif_file_path ep sid i))) [1..<k + 1]"
      by (simp_all add: loaded_def)
    from absent loaded_keys [OF l] l show ?thesis
      unfolding Inr by (simp only: sum.case simp_thms)
  qed
  with below have "(\<forall>i\<in>{1..k}. isfile w (motif_file_path ep sid i)) \<and>
      (case res of
         Inr motif_dfs \<Rightarrow>
           \<not> isfile w (motif_file_path ep sid (k + 1)) \<and> map fst motif_dfs = [1..<k + 1]
           \<and> loaded motif_dfs = map (\<lambda>i. (i, parse_motif w (motif_file_path ep sid i))) [1..<k + 1]
       | Inl err \<Rightarrow>
           isfile w (motif_file_path ep sid (k + 1))
           \<and> parse_motif w (motif_file_path ep sid (k + 1)) = Inl err)"
    by (rule conjI)
  then show "\<exists>n. (\<forall>i\<in>{1..n}. isfile w (motif_file_path ep sid i)) \<and>
      (case res of
         Inr motif_dfs \<Rightarrow>
           \<not> isfile w (motif_file_path ep sid (n + 1)) \<and> map fst motif_dfs = [1..<n + 1]
           \<and> loaded motif_dfs = map (\<lambda>i. (i, parse_motif w (motif_file_path ep sid i))) [1..<n + 1]
       | Inl err \<Rightarrow>
           isfile w (motif_file_path ep sid (n + 1))
           \<and> parse_motif w (motif_file_path ep sid (n + 1)) = Inl err)"
    by (rule exI [where x = k])
next
  assume run: "load_all_motif_bed_files ep sid w = (res, w')"
    and one: "isfile w (motif_file_path ep sid 1) \<and> \<not> isfile w (motif_file_path ep sid 2)
        \<and> parse_motif w (motif_file_path ep sid 1) = Inr t"
  have "load_motif_loop ep sid 1 [] w
      = load_motif_loop ep sid (1 + 1) (dict_set [] 1 t) (say (ReadingMotif (motif_file_path ep sid 1)) w)"
    using one by (intro loop_good) simp_all
  also have "\<dots> = (Inr (dict_set [] 1 t), say (ReadingMotif (motif_file_path ep sid 1)) w)"
  proof (rule loop_absent)
    have "(1::nat) + 1 = 2" by simp
    with one show "\<not> isfile (say (ReadingMotif (motif_file_path ep sid 1)) w)
        (motif_file_path ep sid (1 + 1))"
      by (simp only: say_queries simp_thms)
  qed
  also have "dict_set [] 1 t = [(1, t)]"
    by (simp add: dict_set_def)
  finally show "res = Inr [(1, t)]"
    using run by (simp add: load_all_motif_bed_files_def)
next
  assume run: "load_all_motif_bed_files ep sid w = (res, w')"
    and "\<not> isfile w (motif_file_path ep sid 1)"
  then show "res = Inr []" "w' = w"
    by (simp_all add: load_all_motif_bed_files_def loop_absent)
qed

theorem load_all_motif_bed_files_contiguous_witness:
  "isfile gap_world (motif_file_path ''/d/S1'' ''S1'' 1)
   \<and> \<not> isfile gap_world (motif_file_path ''/d/S1'' ''S1'' 2)
   \<and> isfile gap_world (motif_file_path ''/d/S1'' ''S1'' 3)
   \<and> fst (load_all_motif_bed_files ''/d/S1'' ''S1'' gap_world) = Inr [(1, [motif_100_200])]"
proof -
  have p1: "motif_file_path ''/d/S1'' ''S1'' 1 = ''/d/S1/S1_YEP/S1_Motif_1_FourColor.bed''"
    by (simp add: motif_file_path_def path_join_def str_nat.simps char_of_eq_iff)
  have p2: "motif_file_path ''/d/S1'' ''S1'' 2 = ''/d/S1/S1_YEP/S1_Motif_2_FourColor.bed''"
    by (simp add: motif_file_path_def path_join_def str_nat.simps char_of_eq_iff)
  have p3: "motif_file_path ''/d/S1'' ''S1'' 3 = ''/d/S1/S1_YEP/S1_Motif_3_FourColor.bed''"
    by (simp add: motif_file_path_def path_join_def str_nat.simps char_of_eq_iff)
  have a: "isfile gap_world (motif_file_path ''/d/S1'' ''S1'' 1)"
    unfolding p1 by (simp add: isfile_def gap_world_def)
  have b: "\<not> isfile gap_world (motif_file_path ''/d/S1'' ''S1'' 2)"
    unfolding p2 by (simp add: isfile_def gap_world_def)
  have c: "isfile gap_world (motif_file_path ''/d/S1'' ''S1'' 3)"
    unfolding p3 by (simp add: isfile_def gap_world_def)
  have d: "parse_motif gap_world (motif_file_path ''/d/S1'' ''S1'' 1) = Inr [motif_100_200]"
    unfolding p1
    by (simp add: parse_motif_def read_csv_def set_columns_def gap_world_def motif_columns_def
        bed_100_200_def motif_100_200_def)
  obtain res w' where run: "load_all_motif_bed_files ''/d/S1'' ''S1'' gap_world = (res, w')"
    by (cases "load_all_motif_bed_files ''/d/S1'' ''S1'' gap_world")
  from load_all_motif_bed_files_contiguous [OF run, of "[motif_100_200]"] a b d
  have "res = Inr [(1, [motif_100_200])]" by blast
  with run a b c show ?thesis by simp
qed

section \<open>Fetching an archive twice\<close>


lemma say_counts [simp]:
  "requests_made (say m w) = requests_made w" "files_written (say m w) = files_written w"
  "extractions (say m w) = extractions w"
  by (simp_all add: requests_made_def files_written_def extractions_def)

lemma write_file_Inr:
  "write_file p body w = Inr w' \<Longrightarrow>
   w' = w\<lparr>files := (p, body) # files w, io_log := io_log w @ [WriteFile p]\<rparr>"
  by (simp add: write_file_def Let_def split: if_splits)

lemma extract_members_step:
  "extract_members xp ((name, body) # members) w =
     (if name \<noteq> [] \<and> last name = CHR ''/'' then
        extract_members xp members (w\<lparr>dirs := member_dirs xp name @ dirs w\<rparr>)
      else if body = Damaged then
        (Inl BadZipFile,
         w\<lparr>dirs := member_dirs xp name @ dirs w, files := (path_join xp name, Blob) # files w\<rparr>)
      else extract_members xp members
             (w\<lparr>dirs := member_dirs xp name @ dirs w, files := (path_join xp name, body) # files w\<rparr>))"
  by (cases body) (simp_all add: Let_def)

declare extract_members.simps(2) [simp del]

lemma extract_members_keeps:
  "extract_members xp members w = (r, w') \<Longrightarrow>
   stdout w' = stdout w \<and> io_log w' = io_log w \<and> set (dirs w) \<subseteq> set (dirs w')
   \<and> fst ` set (files w) \<subseteq> fst ` set (files w')"
proof (induction members arbitrary: w)
  case Nil
  then show ?case by simp
next
  case (Cons m members)
  obtain name body where m: "m = (name, body)" by (cases m)
  let ?w1 = "w\<lparr>dirs := member_dirs xp name @ dirs w\<rparr>"
  let ?w2 = "w\<lparr>dirs := member_dirs xp name @ dirs w, files := (path_join xp name, body) # files w\<rparr>"
  consider (dir) "name \<noteq> [] \<and> last name = CHR ''/''"
    | (bad) "\<not> (name \<noteq> [] \<and> last name = CHR ''/'')" "body = Damaged"
    | (good) "\<not> (name \<noteq> [] \<and> last name = CHR ''/'')" "body \<noteq> Damaged"
    by blast
  then show ?case
  proof cases
    case dir
    with Cons.prems have "extract_members xp members ?w1 = (r, w')"
      by (simp add: m extract_members_step)
    from Cons.IH [OF this] show ?thesis by auto
  next
    case bad
    with Cons.prems show ?thesis
      by (auto simp: m extract_members_step)
  next
    case good
    with Cons.prems have "extract_members xp members ?w2 = (r, w')"
      by (simp add: m extract_members_step)
    from Cons.IH [OF this] show ?thesis by auto
  qed
qed

lemma extract_members_makes_dir:
  assumes run: "extract_members xp members w = (r, w')"
    and some: "members \<noteq> []" and named: "xp \<noteq> []"
  shows "xp \<in> set (dirs w')"
proof -
  obtain name body rest where members: "members = (name, body) # rest"
    using some by (cases members) auto
  let ?w1 = "w\<lparr>dirs := member_dirs xp name @ dirs w\<rparr>"
  let ?w2 = "w\<lparr>dirs := member_dirs xp name @ dirs w, files := (path_join xp name, body) # files w\<rparr>"
  have made: "xp \<in> set (member_dirs xp name)"
    using named by (simp add: member_dirs_def)
  consider (dir) "name \<noteq> [] \<and> last name = CHR ''/''"
    | (bad) "\<not> (name \<noteq> [] \<and> last name = CHR ''/'')" "body = Damaged"
    | (good) "\<not> (name \<noteq> [] \<and> last name = CHR ''/'')" "body \<noteq> Damaged"
    by blast
  then show ?thesis
  proof cases
    case dir
    with run have "extract_members xp rest ?w1 = (r, w')"
      by (simp add: members extract_members_step)
    from extract_members_keeps [OF this] made show ?thesis by auto
  next
    case bad
    with run made show ?thesis
      by (auto simp: members extract_members_step)
  next
    case good
    with run have "extract_members xp rest ?w2 = (r, w')"
      by (simp add: members extract_members_step)
    from extract_members_keeps [OF this] made show ?thesis by auto
  qed
qed

lemma extractall_facts:
  assumes run: "extractall z xp w = (r, w')"
  shows "stdout w' = stdout w \<and> set (dirs w) \<subseteq> set (dirs w')
    \<and> fst ` set (files w) \<subseteq> fst ` set (files w')
    \<and> (io_log w' = io_log w \<or> io_log w' = io_log w @ [ExtractAll z xp])
    \<and> (\<forall>u. r = Inr u \<longrightarrow> xp \<noteq> [] \<longrightarrow> map_of (files w') z \<noteq> Some (Zip []) \<longrightarrow> xp \<in> set (dirs w'))"
proof (cases "map_of (files w) z")
  case None
  with run show ?thesis by (auto simp: extractall_def)
next
  case (Some c)
  show ?thesis
  proof (cases "\<exists>members. c = Zip members")
    case False
    with run Some show ?thesis
      by (cases c) (auto simp: extractall_def)
  next
    case True
    then obtain members where c: "c = Zip members" by blast
    let ?w0 = "w\<lparr>io_log := io_log w @ [ExtractAll z xp]\<rparr>"
    from run Some c have x: "extract_members xp members ?w0 = (r, w')"
      by (simp add: extractall_def)
    note keeps = extract_members_keeps [OF x]
    have "xp \<in> set (dirs w')" if "xp \<noteq> []" "map_of (files w') z \<noteq> Some (Zip [])"
    proof (cases "members = []")
      case True
      with x have "w' = ?w0" by simp
      with Some c True that show ?thesis by simp
    next
      case False
      from extract_members_makes_dir [OF x False that(1)] show ?thesis .
    qed
    with keeps show ?thesis by auto
  qed
qed

lemma download_and_extract_zip_halves:
  "download_and_extract_zip e sample_id dest_folder w =
     (case ensure_downloaded e sample_id dest_folder w of
        (Inl err, w3) \<Rightarrow> (Inl err, w3)
      | (Inr u, w3) \<Rightarrow> ensure_extracted sample_id dest_folder w3)"
  by (simp add: download_and_extract_zip_def ensure_downloaded_def ensure_extracted_def
      zip_filename_of_def extract_path_of_def zip_url_def Let_def
      split: prod.splits sum.splits)











section \<open>The name of the reference peak file\<close>

lemma upper_lower_char: "upper_char (lower_char c) = upper_char c"
proof -
  have "(of_char c :: nat) < 256" by simp
  then show ?thesis
    by (auto simp: upper_char_def lower_char_def Let_def)
qed

lemma capitalize_of_lower:
  assumes "str_lower a = str_lower b"
  shows "str_capitalize a = str_capitalize b"
proof (cases a)
  case Nil
  with assms show ?thesis by (simp add: str_lower_def)
next
  case (Cons x xs)
  with assms obtain y ys where b: "b = y # ys" and hd: "lower_char x = lower_char y"
    and tl: "map lower_char xs = map lower_char ys"
    by (cases b) (auto simp: str_lower_def)
  have "upper_char x = upper_char y"
    using hd by (metis upper_lower_char)
  with Cons b tl show ?thesis by (simp add: str_capitalize_def)
qed

text \<open>
  C10. The file name of the reference peaks is \<open>str.capitalize\<close> of the TF name (first
  character in upper case, the others in lower case) followed by \<open>_CX.bed\<close>. Two TF
  names that are equal up to case have the same capitalised form, so
  \<open>download_tf_chexmix_bed\<close> behaves the same for both: same URL, same cache file. The
  path it returns is that file name in the destination directory; when the path does
  not exist the URL requested ends in that file name, and when it exists nothing is
  requested. For \<open>ABF1\<close> the file fetched and saved is \<open>Abf1_CX.bed\<close>.
\<close>

theorem download_tf_chexmix_bed_capitalized:
  "(str_lower a = str_lower b \<longrightarrow>
      str_capitalize a = str_capitalize b
      \<and> download_tf_chexmix_bed e a dest_dir w = download_tf_chexmix_bed e b dest_dir w)
   \<and> str_capitalize (c # cs) = upper_char c # str_lower cs
   \<and> (\<forall>p. fst (download_tf_chexmix_bed e tf_name dest_dir w) = Inr p \<longrightarrow>
         p = path_join dest_dir (str_capitalize tf_name @ ''_CX.bed''))
   \<and> (\<not> path_exists w (path_join dest_dir (str_capitalize tf_name @ ''_CX.bed'')) \<longrightarrow>
         HttpGet (chexmix_url (str_capitalize tf_name @ ''_CX.bed''))
           \<in> set (io_log (snd (download_tf_chexmix_bed e tf_name dest_dir w))))
   \<and> (path_exists w (path_join dest_dir (str_capitalize tf_name @ ''_CX.bed'')) \<longrightarrow>
         io_log (snd (download_tf_chexmix_bed e tf_name dest_dir w)) = io_log w)"
proof (intro conjI impI allI)
  assume "str_lower a = str_lower b"
  then show c: "str_capitalize a = str_capitalize b"
    by (rule capitalize_of_lower)
  then show "download_tf_chexmix_bed e a dest_dir w = download_tf_chexmix_bed e b dest_dir w"
    by (simp add: download_tf_chexmix_bed_def)
next
  show "str_capitalize (c # cs) = upper_char c # str_lower cs"
    by (simp add: str_capitalize_def str_lower_def)
next
  fix p
  assume "fst (download_tf_chexmix_bed e tf_name dest_dir w) = Inr p"
  then show "p = path_join dest_dir (str_capitalize tf_name @ ''_CX.bed'')"
    by (auto simp: download_tf_chexmix_bed_def Let_def requests_get_def
        split: if_splits prod.splits sum.splits response.splits)
next
  assume "\<not> path_exists w (path_join dest_dir (str_capitalize tf_name @ ''_CX.bed''))"
  then show "HttpGet (chexmix_url (str_capitalize tf_name @ ''_CX.bed''))
           \<in> set (io_log (snd (download_tf_chexmix_bed e tf_name dest_dir w)))"
    by (auto simp: download_tf_chexmix_bed_def Let_def requests_get_def chexmix_url_def
        say_def dest!: write_file_Inr split: prod.splits sum.splits response.splits)
next
  assume "path_exists w (path_join dest_dir (str_capitalize tf_name @ ''_CX.bed''))"
  then show "io_log (snd (download_tf_chexmix_bed e tf_name dest_dir w)) = io_log w"
    by (simp add: download_tf_chexmix_bed_def Let_def say_def)
qed

theorem download_tf_chexmix_bed_capitalized_witness:
  "str_lower ''ABF1'' = str_lower ''abf1''
   \<and> str_capitalize ''ABF1'' = ''Abf1''
   \<and> download_tf_chexmix_bed net_abf1 ''ABF1'' ''/d'' d_world
       = download_tf_chexmix_bed net_abf1 ''abf1'' ''/d'' d_world
   \<and> fst (download_tf_chexmix_bed net_abf1 ''ABF1'' ''/d'' d_world) = Inr ''/d/Abf1_CX.bed''
   \<and> io_log (snd (download_tf_chexmix_bed net_abf1 ''ABF1'' ''/d'' d_world))
       = [HttpGet (chexmix_url ''Abf1_CX.bed''), WriteFile ''/d/Abf1_CX.bed'']"
proof -
  have low: "str_lower ''ABF1'' = str_lower ''abf1''"
    by (simp add: str_lower_def lower_char_def char_of_eq_iff)
  have cap: "str_capitalize ''ABF1'' = ''Abf1''"
    by (simp add: str_capitalize_def lower_char_def upper_char_def char_of_eq_iff)
  have run: "download_tf_chexmix_bed net_abf1 ''ABF1'' ''/d'' d_world =
      (Inr ''/d/Abf1_CX.bed'',
       \<lparr>files = [(''/d/Abf1_CX.bed'', Tsv 6 [])], dirs = [''/d''],
        stdout = [DownloadingFrom ''Abf1_CX.bed'' (chexmix_url ''Abf1_CX.bed''),
                  SavedTo ''/d/Abf1_CX.bed''],
        io_log = [HttpGet (chexmix_url ''Abf1_CX.bed''), WriteFile ''/d/Abf1_CX.bed'']\<rparr>)"
    by (simp add: download_tf_chexmix_bed_def cap Let_def path_join_def path_exists_def isfile_def isdir_def say_def
        requests_get_def raise_for_status_def write_file_def dirname_def net_abf1_def
        d_world_def chexmix_url_def)
  from download_tf_chexmix_bed_capitalized [of "''ABF1''" "''abf1''" net_abf1 "''/d''" d_world] low
  have same: "download_tf_chexmix_bed net_abf1 ''ABF1'' ''/d'' d_world
       = download_tf_chexmix_bed net_abf1 ''abf1'' ''/d'' d_world"
    by blast
  have r1: "fst (download_tf_chexmix_bed net_abf1 ''ABF1'' ''/d'' d_world) = Inr ''/d/Abf1_CX.bed''"
    by (simp add: run)
  have r2: "io_log (snd (download_tf_chexmix_bed net_abf1 ''ABF1'' ''/d'' d_world))
       = [HttpGet (chexmix_url ''Abf1_CX.bed''), WriteFile ''/d/Abf1_CX.bed'']"
    by (simp add: run)
  from low cap same r1 r2 show ?thesis
    by (intro conjI)
qed

section \<open>The metadata filter\<close>

lemma get_replicates_for_tf_trimmed_request:
  "xlsx e metadata_file sheet_name = Inr df \<Longrightarrow> str_strip tf_name = tf_name \<Longrightarrow>
   get_replicates_for_tf e tf_name metadata_file = Inr (spec_replicates df tf_name)"
proof -
  assume sheet: "xlsx e metadata_file sheet_name = Inr df" and trimmed: "str_strip tf_name = tf_name"
  have eq: "(\<lambda>row :: meta_row. map_option (\<lambda>s. str_lower (str_strip s)) (yeast_target_common_name row)
                = Some (str_lower tf_name))
      = (\<lambda>row. spec_tf_matches tf_name (yeast_target_common_name row))"
  proof (rule ext)
    fix row :: meta_row
    show "(map_option (\<lambda>s. str_lower (str_strip s)) (yeast_target_common_name row)
                = Some (str_lower tf_name))
      = spec_tf_matches tf_name (yeast_target_common_name row)"
      by (cases "yeast_target_common_name row") (simp_all add: spec_tf_matches_def trimmed)
  qed
  show ?thesis
    unfolding get_replicates_for_tf_def spec_replicates_def sheet Let_def eq by simp
qed

text \<open>
  C9. \<open>get_replicates_for_tf\<close> trims and lower-cases the TF-name cell but only
  lower-cases the requested name. For a requested name without surrounding whitespace
  the result is the one the specification describes (lemma above). For the name
  \<open>Abf1\<close> followed by a space, which is what \<open>run_all_tfs\<close> passes when the cell
  holds it, the code finds no replicate although the cell and the request are the same
  text; the specification's comparison finds the replicate R1 of sample S1.
\<close>

theorem get_replicates_for_tf_untrimmed_request:
  "dropna_unique (map yeast_target_common_name spaced_sheet) = [''Abf1 '']
   \<and> get_replicates_for_tf spaced_meta ''Abf1 '' metadata_xlsx = Inr []
   \<and> spec_replicates spaced_sheet ''Abf1 '' = [(''R1'', ''S1'')]"
proof -
  have strip: "str_strip ''Abf1 '' = ''Abf1''"
    by (simp add: str_strip_def isspace_def)
  have low1: "str_lower ''Abf1'' = ''abf1''"
    by (simp add: str_lower_def lower_char_def char_of_eq_iff)
  have low2: "str_lower ''Abf1 '' = ''abf1 ''"
    by (simp add: str_lower_def lower_char_def char_of_eq_iff)
  have a: "dropna_unique (map yeast_target_common_name spaced_sheet) = [''Abf1 '']"
    by (simp add: dropna_unique_def spaced_sheet_def drop_duplicates_def drop_duplicates_by_def)
  have b: "get_replicates_for_tf spaced_meta ''Abf1 '' metadata_xlsx = Inr []"
    by (simp add: get_replicates_for_tf_def spaced_meta_def spaced_sheet_def strip low1 low2
        drop_duplicates_def drop_duplicates_by_def)
  have c: "spec_replicates spaced_sheet ''Abf1 '' = [(''R1'', ''S1'')]"
    by (simp add: spec_replicates_def spec_tf_matches_def spaced_sheet_def strip
        drop_duplicates_def drop_duplicates_by_def)
  from a b c show ?thesis by (intro conjI)
qed

section \<open>What the functions print\<close>

lemma prints_onlyI: "stdout w' = stdout w @ ms \<Longrightarrow> list_all P ms \<Longrightarrow> prints_only P w w'"
  by (simp add: prints_only_def)

lemma prints_onlyD: "prints_only P w w' \<Longrightarrow> \<exists>ms. stdout w' = stdout w @ ms \<and> list_all P ms"
  unfolding prints_only_def by (metis append_take_drop_id)

lemma prints_only_refl [simp]: "prints_only P w w"
  by (simp add: prints_only_def)

lemma prints_only_same: "stdout w' = stdout w \<Longrightarrow> prints_only P w w'"
  by (simp add: prints_only_def)

lemma prints_only_trans:
  "prints_only P w w' \<Longrightarrow> prints_only P w' w'' \<Longrightarrow> prints_only P w w''"
proof -
  assume "prints_only P w w'" "prints_only P w' w''"
  then obtain ms ns where "stdout w' = stdout w @ ms" "list_all P ms"
    "stdout w'' = stdout w' @ ns" "list_all P ns"
    by (blast dest: prints_onlyD)
  then have "stdout w'' = stdout w @ (ms @ ns)" "list_all P (ms @ ns)"
    by simp_all
  then show ?thesis by (rule prints_onlyI)
qed

lemma prints_only_say: "P m \<Longrightarrow> prints_only P w (say m w)"
  by (simp add: prints_only_def say_def)

lemma prints_only_mono:
  "prints_only P w w' \<Longrightarrow> (\<And>m. P m \<Longrightarrow> Q m) \<Longrightarrow> prints_only Q w w'"
  by (auto simp: prints_only_def list_all_iff)

lemma prints_only_filter:
  "prints_only P w w' \<Longrightarrow> (\<And>m. P m \<Longrightarrow> \<not> Q m) \<Longrightarrow> filter Q (stdout w') = filter Q (stdout w)"
proof -
  assume "prints_only P w w'" and no: "\<And>m. P m \<Longrightarrow> \<not> Q m"
  then obtain ms where ms: "stdout w' = stdout w @ ms" "list_all P ms"
    by (blast dest: prints_onlyD)
  then have "filter Q ms = []"
    using no by (auto simp: list_all_iff filter_empty_conv)
  with ms show ?thesis by simp
qed

lemma ensure_downloaded_prints:
  "ensure_downloaded e sid dest w = (r, w') \<Longrightarrow> prints_only fetch_message w w'"
  by (auto simp: ensure_downloaded_def requests_get_def raise_for_status_def
      say_def prints_only_def Let_def dest!: write_file_Inr
      split: if_splits sum.splits response.splits)

lemma ensure_extracted_prints:
  assumes run: "ensure_extracted sid dest w = (r, w')"
  shows "prints_only fetch_message w w'"
proof (cases "isdir w (extract_path_of dest sid)")
  case True
  with run show ?thesis
    by (auto simp: ensure_extracted_def say_def prints_only_def)
next
  case False
  let ?w4 = "say (Extracting (zip_filename_of dest sid) (extract_path_of dest sid)) w"
  obtain rx w5 where x: "extractall (zip_filename_of dest sid) (extract_path_of dest sid) ?w4 = (rx, w5)"
    by (cases "extractall (zip_filename_of dest sid) (extract_path_of dest sid) ?w4")
  from run False x have "w' = w5"
    by (auto simp: ensure_extracted_def split: sum.splits)
  moreover have "stdout w5 = stdout ?w4"
    using extractall_facts [OF x] by simp
  ultimately show ?thesis
    by (simp add: say_def prints_only_def)
qed

lemma fetch_prints:
  "download_and_extract_zip e sid dest w = (r, w') \<Longrightarrow> prints_only fetch_message w w'"
  by (auto simp: download_and_extract_zip_halves split: prod.splits sum.splits
      dest: ensure_downloaded_prints ensure_extracted_prints intro: prints_only_trans)

lemma load_loop_prints:
  "load_motif_loop ep sid m d w = (res, w') \<Longrightarrow> prints_only fetch_message w w'"
proof (induction ep sid m d w arbitrary: res w' rule: load_motif_loop.induct)
  case (1 ep sid m d w)
  let ?p = "motif_file_path ep sid m"
  let ?w1 = "say (ReadingMotif ?p) w"
  have step: "prints_only fetch_message w ?w1"
    by (rule prints_only_say) simp
  show ?case
  proof (cases "isfile w ?p")
    case False
    with 1(2) show ?thesis by (simp add: loop_absent)
  next
    case True
    show ?thesis
    proof (cases "parse_motif w ?p")
      case (Inl err)
      from loop_bad [OF True Inl, of d] 1(2) step show ?thesis by simp
    next
      case (Inr t)
      obtain df rows where df: "read_csv ?w1 ?p = Inr df" "set_columns df = Inr rows"
        and t: "t = map motif_columns rows"
        using Inr by (auto simp: parse_motif_def split: sum.splits)
      have next_run: "load_motif_loop ep sid (m + 1) (dict_set d m t) ?w1 = (res, w')"
        using loop_good [OF True Inr, of d] 1(2) by simp
      have "prints_only fetch_message ?w1 w'"
        using 1(1) [OF refl _ refl df(1) df(2) next_run [unfolded t]] True by simp
      with step show ?thesis by (rule prints_only_trans)
    qed
  qed
qed

lemma load_all_prints:
  "load_all_motif_bed_files ep sid w = (res, w') \<Longrightarrow> prints_only fetch_message w w'"
  by (simp add: load_all_motif_bed_files_def load_loop_prints)

lemma download_tf_prints:
  "download_tf_chexmix_bed e tf dest w = (r, w') \<Longrightarrow> prints_only fetch_message w w'"
  by (auto simp: download_tf_chexmix_bed_def Let_def requests_get_def raise_for_status_def
      say_def prints_only_def dest!: write_file_Inr split: if_splits sum.splits response.splits)

lemma load_tf_prints:
  "load_tf_chexmix_bed e tf dir w = (r, w') \<Longrightarrow> prints_only fetch_message w w'"
proof -
  assume run: "load_tf_chexmix_bed e tf dir w = (r, w')"
  obtain rd w1 where d: "download_tf_chexmix_bed e tf dir (makedirs dir w) = (rd, w1)"
    by (cases "download_tf_chexmix_bed e tf dir (makedirs dir w)")
  have "w' = w1"
    using run d by (auto simp: load_tf_chexmix_bed_def split: sum.splits)
  moreover have "prints_only fetch_message w (makedirs dir w)"
    by (rule prints_only_same) (simp add: makedirs_def)
  ultimately show ?thesis
    using download_tf_prints [OF d] by (blast intro: prints_only_trans)
qed

lemma replicate_fetch_fails:
  "download_and_extract_zip e sid data_dir (say (ProcessingReplicate rn sid) w) = (Inl err, w2) \<Longrightarrow>
   replicate_loop e cx ((rn, sid) # rows) acc w = (Inl err, w2)"
  by simp

lemma replicate_load_fails:
  "download_and_extract_zip e sid data_dir (say (ProcessingReplicate rn sid) w) = (Inr xp, w2) \<Longrightarrow>
   load_all_motif_bed_files xp sid w2 = (Inl err, w3) \<Longrightarrow>
   replicate_loop e cx ((rn, sid) # rows) acc w = (Inl err, w3)"
  by simp

lemma replicate_skip:
  "download_and_extract_zip e sid data_dir (say (ProcessingReplicate rn sid) w) = (Inr xp, w2) \<Longrightarrow>
   load_all_motif_bed_files xp sid w2 = (Inr [], w3) \<Longrightarrow>
   replicate_loop e cx ((rn, sid) # rows) acc w =
     replicate_loop e cx rows acc (say (NoMotifFiles sid) w3)"
  by simp

lemma replicate_join:
  "download_and_extract_zip e sid data_dir (say (ProcessingReplicate rn sid) w) = (Inr xp, w2) \<Longrightarrow>
   load_all_motif_bed_files xp sid w2 = (Inr d, w3) \<Longrightarrow> d \<noteq> [] \<Longrightarrow>
   replicate_loop e cx ((rn, sid) # rows) acc w =
     replicate_loop e cx rows
       (acc @ [map (add_sample_columns sid rn) (fst (merge_motif_with_chexmix d cx))])
       (w3\<lparr>stdout := stdout w3 @ map PrintFrame (snd (merge_motif_with_chexmix d cx))\<rparr>)"
  by (simp add: case_prod_unfold)

declare replicate_loop.simps(2) [simp del]

lemma replicate_loop_prints:
  "replicate_loop e cx rows acc w = (r, w') \<Longrightarrow> prints_only main_message w w'"
proof (induction rows arbitrary: acc w)
  case Nil
  then show ?case by simp
next
  case (Cons row rows)
  obtain rn sid where row: "row = (rn, sid)" by (cases row)
  let ?w1 = "say (ProcessingReplicate rn sid) w"
  have p1: "prints_only main_message w ?w1"
    by (rule prints_only_say) simp
  obtain rd w2 where d: "download_and_extract_zip e sid data_dir ?w1 = (rd, w2)"
    by (cases "download_and_extract_zip e sid data_dir ?w1")
  have "prints_only main_message ?w1 w2"
    by (rule prints_only_mono [OF fetch_prints [OF d]]) (case_tac m, simp_all)
  with p1 have p2: "prints_only main_message w w2" by (rule prints_only_trans)
  show ?case
  proof (cases rd)
    case (Inl err)
    with Cons.prems row d p2 show ?thesis by (simp add: replicate_fetch_fails)
  next
    case (Inr xp)
    obtain rl w3 where l: "load_all_motif_bed_files xp sid w2 = (rl, w3)"
      by (cases "load_all_motif_bed_files xp sid w2")
    have "prints_only main_message w2 w3"
      by (rule prints_only_mono [OF load_all_prints [OF l]]) (case_tac m, simp_all)
    with p2 have p3: "prints_only main_message w w3" by (rule prints_only_trans)
    show ?thesis
    proof (cases rl)
      case (Inl err)
      with Cons.prems row d l Inr p3 show ?thesis by (simp add: replicate_load_fails)
    next
      case dict: (Inr dfs)
      show ?thesis
      proof (cases "dfs = []")
        case True
        let ?w4 = "say (NoMotifFiles sid) w3"
        have "replicate_loop e cx rows acc ?w4 = (r, w')"
          using Cons.prems row d l Inr dict True by (simp add: replicate_skip)
        then have "prints_only main_message ?w4 w'" by (rule Cons.IH)
        moreover have "prints_only main_message w3 ?w4"
          by (rule prints_only_say) simp
        ultimately show ?thesis using p3 by (blast intro: prints_only_trans)
      next
        case False
        let ?w4 = "w3\<lparr>stdout := stdout w3 @ map PrintFrame (snd (merge_motif_with_chexmix dfs cx))\<rparr>"
        have "replicate_loop e cx rows
            (acc @ [map (add_sample_columns sid rn) (fst (merge_motif_with_chexmix dfs cx))]) ?w4 = (r, w')"
          using Cons.prems row d l Inr dict False by (simp add: replicate_join)
        then have "prints_only main_message ?w4 w'" by (rule Cons.IH)
        moreover have "prints_only main_message w3 ?w4"
          by (rule prints_onlyI [where ms = "map PrintFrame (snd (merge_motif_with_chexmix dfs cx))"])
             (simp_all add: list_all_iff)
        ultimately show ?thesis using p3 by (blast intro: prints_only_trans)
      qed
    qed
  qed
qed

lemma main_prints:
  "main e tf_name w = (r, w') \<Longrightarrow> prints_only main_message w w'"
proof -
  assume run: "main e tf_name w = (r, w')"
  show ?thesis
  proof (cases "get_replicates_for_tf e tf_name metadata_xlsx")
    case (Inl err)
    with run show ?thesis by (simp add: main_def)
  next
    case (Inr replicates)
    let ?w1 = "say (FoundReplicates (length replicates) tf_name) w"
    have p1: "prints_only main_message w ?w1"
      by (rule prints_only_say) simp
    obtain rc w2 where c: "load_tf_chexmix_bed e tf_name data_dir ?w1 = (rc, w2)"
      by (cases "load_tf_chexmix_bed e tf_name data_dir ?w1")
    have "prints_only main_message ?w1 w2"
      by (rule prints_only_mono [OF load_tf_prints [OF c]]) (case_tac m, simp_all)
    with p1 have p2: "prints_only main_message w w2" by (rule prints_only_trans)
    show ?thesis
    proof (cases rc)
      case (Inl err)
      with run Inr c p2 show ?thesis by (simp add: main_def)
    next
      case cx: (Inr chexmix_df)
      obtain rr w3 where l: "replicate_loop e chexmix_df replicates [] w2 = (rr, w3)"
        by (cases "replicate_loop e chexmix_df replicates [] w2")
      from p2 replicate_loop_prints [OF l] have p3: "prints_only main_message w w3"
        by (rule prints_only_trans)
      show ?thesis
      proof (cases rr)
        case (Inl err)
        with run Inr c cx l p3 show ?thesis by (simp add: main_def)
      next
        case aggs: (Inr aggregated_results)
        have "prints_only main_message w3 w'"
          using run Inr c cx l aggs
          by (auto simp: main_def Let_def prints_only_def say_def to_csv_def split: if_splits)
        with p3 show ?thesis by (rule prints_only_trans)
      qed
    qed
  qed
qed

lemma tf_loop_append: "tf_loop e (xs @ ys) w = tf_loop e ys (tf_loop e xs w)"
  by (induction xs arbitrary: w) (auto split: prod.splits sum.splits)

lemma tf_loop_step_prints:
  "prints_only (\<lambda>m. \<not> is_running m) (say (RunningPipeline tf_name) w) (tf_loop e [tf_name] w)"
proof -
  let ?w0 = "say (RunningPipeline tf_name) w"
  obtain r w1 where m: "main e tf_name ?w0 = (r, w1)"
    by (cases "main e tf_name ?w0")
  have p: "prints_only (\<lambda>m. \<not> is_running m) ?w0 w1"
    by (rule prints_only_mono [OF main_prints [OF m]]) (case_tac m, simp_all)
  show ?thesis
  proof (cases r)
    case (Inl err)
    have "prints_only (\<lambda>m. \<not> is_running m) w1 (say (ErrorProcessing tf_name err) w1)"
      by (rule prints_only_say) simp
    with p have "prints_only (\<lambda>m. \<not> is_running m) ?w0 (say (ErrorProcessing tf_name err) w1)"
      by (rule prints_only_trans)
    with m Inl show ?thesis by simp
  next
    case (Inr u)
    with m p show ?thesis by simp
  qed
qed

lemma tf_loop_running:
  "filter is_running (stdout (tf_loop e tfs w)) = filter is_running (stdout w) @ map RunningPipeline tfs"
proof (induction tfs arbitrary: w)
  case Nil
  show ?case by simp
next
  case (Cons tf_name tfs)
  have "filter is_running (stdout (tf_loop e [tf_name] w))
      = filter is_running (stdout (say (RunningPipeline tf_name) w))"
    by (rule prints_only_filter [OF tf_loop_step_prints]) simp
  then have one: "filter is_running (stdout (tf_loop e [tf_name] w))
      = filter is_running (stdout w) @ [RunningPipeline tf_name]"
    by (simp add: say_def)
  have "tf_loop e (tf_name # tfs) w = tf_loop e tfs (tf_loop e [tf_name] w)"
    using tf_loop_append [of e "[tf_name]" tfs w] by simp
  then show ?case
    by (simp only: Cons.IH one) simp
qed

lemma tf_loop_grows: "prints_only (\<lambda>m. True) w (tf_loop e tfs w)"
proof (induction tfs arbitrary: w)
  case Nil
  show ?case by simp
next
  case (Cons tf_name tfs)
  have "prints_only (\<lambda>m. True) w (say (RunningPipeline tf_name) w)"
    by (rule prints_only_say) simp
  moreover have "prints_only (\<lambda>m. True) (say (RunningPipeline tf_name) w) (tf_loop e [tf_name] w)"
    by (rule prints_only_mono [OF tf_loop_step_prints]) simp
  moreover have "tf_loop e (tf_name # tfs) w = tf_loop e tfs (tf_loop e [tf_name] w)"
    using tf_loop_append [of e "[tf_name]" tfs w] by simp
  ultimately show ?case
    using Cons.IH [of "tf_loop e [tf_name] w"] by (metis prints_only_trans)
qed

lemma prints_only_keeps: "prints_only P w w' \<Longrightarrow> m \<in> set (stdout w) \<Longrightarrow> m \<in> set (stdout w')"
  by (auto dest: prints_onlyD)

text \<open>
  C7. \<open>run_all_tfs\<close> reads the TF column of the metadata sheet; when the sheet cannot
  be read it ends with that error before any TF is started. Otherwise it returns
  normally, whatever the TFs do, and its final state is the state of the loop over the
  distinct non-empty TF names of the sheet, in order of appearance: the pipeline is
  started for every one of these TFs (the "Running pipeline" lines of the output of the
  run are exactly those of that list, in order). One step of the loop runs \<open>main\<close> for
  the TF and, when \<open>main\<close> raises, prints the error for that TF and goes on. So for
  any TF of the list, with the TFs before it and after it: the run is the loop over the
  TFs before, then that TF, then the loop over the TFs after; and when \<open>main\<close> fails
  for that TF, the run is the loop over all the TFs after it, started from the state the
  failed run left with the error line added; the error line is in the output of the run,
  and every TF after it is started.
\<close>

theorem run_all_tfs_isolates_failures:
  "fst (run_all_tfs e metadata_file w)
     = (case xlsx e metadata_file sheet_name of Inl err \<Rightarrow> Inl err | Inr df \<Rightarrow> Inr ())
   \<and> (xlsx e metadata_file sheet_name = Inl sheet_error \<longrightarrow>
         run_all_tfs e metadata_file w = (Inl sheet_error, w))
   \<and> (xlsx e metadata_file sheet_name = Inr df \<longrightarrow>
         run_all_tfs e metadata_file w
           = (Inr (), tf_loop e (dropna_unique (map yeast_target_common_name df)) w)
         \<and> filter is_running (stdout (snd (run_all_tfs e metadata_file w)))
             = filter is_running (stdout w)
               @ map RunningPipeline (dropna_unique (map yeast_target_common_name df))
         \<and> (dropna_unique (map yeast_target_common_name df) = before @ tf_name # after \<longrightarrow>
               snd (run_all_tfs e metadata_file w)
                 = tf_loop e after (tf_loop e [tf_name] (tf_loop e before w))
               \<and> (main e tf_name (say (RunningPipeline tf_name) (tf_loop e before w)) = (Inl err, w1) \<longrightarrow>
                     snd (run_all_tfs e metadata_file w)
                       = tf_loop e after (say (ErrorProcessing tf_name err) w1)
                     \<and> ErrorProcessing tf_name err
                         \<in> set (stdout (snd (run_all_tfs e metadata_file w)))
                     \<and> filter is_running (stdout (snd (run_all_tfs e metadata_file w)))
                         = filter is_running (stdout w1) @ map RunningPipeline after)))
   \<and> tf_loop e [tf_name] v
       = (case main e tf_name (say (RunningPipeline tf_name) v) of
            (Inl failure, v1) \<Rightarrow> say (ErrorProcessing tf_name failure) v1
          | (Inr u, v1) \<Rightarrow> v1)
   \<and> filter is_running (stdout (tf_loop e unique_tfs w))
       = filter is_running (stdout w) @ map RunningPipeline unique_tfs
   \<and> tf_loop e (before @ tf_name # after) w
       = tf_loop e after (tf_loop e [tf_name] (tf_loop e before w))
   \<and> (main e tf_name (say (RunningPipeline tf_name) v) = (Inl err, w1) \<longrightarrow>
         tf_loop e (tf_name # after) v = tf_loop e after (say (ErrorProcessing tf_name err) w1)
         \<and> ErrorProcessing tf_name err \<in> set (stdout (tf_loop e (tf_name # after) v)))"
proof -
  let ?names = "dropna_unique (map yeast_target_common_name df)"
  have split: "tf_loop e (before @ tf_name # after) w
       = tf_loop e after (tf_loop e [tf_name] (tf_loop e before w))"
    using tf_loop_append [of e before "[tf_name] @ after" w]
      tf_loop_append [of e "[tf_name]" after "tf_loop e before w"] by simp
  have failing: "tf_loop e (tf_name # after) u = tf_loop e after (say (ErrorProcessing tf_name err) w1)
      \<and> ErrorProcessing tf_name err \<in> set (stdout (tf_loop e (tf_name # after) u))"
    if fails: "main e tf_name (say (RunningPipeline tf_name) u) = (Inl err, w1)" for u
  proof -
    from fails have step: "tf_loop e (tf_name # after) u
        = tf_loop e after (say (ErrorProcessing tf_name err) w1)"
      by simp
    have "ErrorProcessing tf_name err \<in> set (stdout (say (ErrorProcessing tf_name err) w1))"
      by (simp add: say_def)
    then have "ErrorProcessing tf_name err \<in> set (stdout (tf_loop e (tf_name # after) u))"
      unfolding step by (rule prints_only_keeps [OF tf_loop_grows])
    with step show ?thesis ..
  qed
  have c1: "fst (run_all_tfs e metadata_file w)
     = (case xlsx e metadata_file sheet_name of Inl err \<Rightarrow> Inl err | Inr df \<Rightarrow> Inr ())"
    by (simp add: run_all_tfs_def split: sum.splits)
  have c2: "xlsx e metadata_file sheet_name = Inl sheet_error \<longrightarrow>
         run_all_tfs e metadata_file w = (Inl sheet_error, w)"
    by (simp add: run_all_tfs_def)
  have c3: "xlsx e metadata_file sheet_name = Inr df \<longrightarrow>
         run_all_tfs e metadata_file w = (Inr (), tf_loop e ?names w)
         \<and> filter is_running (stdout (snd (run_all_tfs e metadata_file w)))
             = filter is_running (stdout w) @ map RunningPipeline ?names
         \<and> (?names = before @ tf_name # after \<longrightarrow>
               snd (run_all_tfs e metadata_file w)
                 = tf_loop e after (tf_loop e [tf_name] (tf_loop e before w))
               \<and> (main e tf_name (say (RunningPipeline tf_name) (tf_loop e before w)) = (Inl err, w1) \<longrightarrow>
                     snd (run_all_tfs e metadata_file w)
                       = tf_loop e after (say (ErrorProcessing tf_name err) w1)
                     \<and> ErrorProcessing tf_name err
                         \<in> set (stdout (snd (run_all_tfs e metadata_file w)))
                     \<and> filter is_running (stdout (snd (run_all_tfs e metadata_file w)))
                         = filter is_running (stdout w1) @ map RunningPipeline after))"
  proof
    assume sheet: "xlsx e metadata_file sheet_name = Inr df"
    then have run: "run_all_tfs e metadata_file w = (Inr (), tf_loop e ?names w)"
      by (simp add: run_all_tfs_def)
    then have state: "snd (run_all_tfs e metadata_file w) = tf_loop e ?names w"
      by simp
    have lines: "filter is_running (stdout (snd (run_all_tfs e metadata_file w)))
             = filter is_running (stdout w) @ map RunningPipeline ?names"
      unfolding state by (rule tf_loop_running)
    have each: "?names = before @ tf_name # after \<longrightarrow>
               snd (run_all_tfs e metadata_file w)
                 = tf_loop e after (tf_loop e [tf_name] (tf_loop e before w))
               \<and> (main e tf_name (say (RunningPipeline tf_name) (tf_loop e before w)) = (Inl err, w1) \<longrightarrow>
                     snd (run_all_tfs e metadata_file w)
                       = tf_loop e after (say (ErrorProcessing tf_name err) w1)
                     \<and> ErrorProcessing tf_name err
                         \<in> set (stdout (snd (run_all_tfs e metadata_file w)))
                     \<and> filter is_running (stdout (snd (run_all_tfs e metadata_file w)))
                         = filter is_running (stdout w1) @ map RunningPipeline after)"
    proof
      assume names: "?names = before @ tf_name # after"
      have whole: "snd (run_all_tfs e metadata_file w)
          = tf_loop e after (tf_loop e [tf_name] (tf_loop e before w))"
        unfolding state names by (rule split)
      have rest: "snd (run_all_tfs e metadata_file w) = tf_loop e (tf_name # after) (tf_loop e before w)"
        unfolding state names by (rule tf_loop_append)
      have caught: "main e tf_name (say (RunningPipeline tf_name) (tf_loop e before w)) = (Inl err, w1) \<longrightarrow>
                     snd (run_all_tfs e metadata_file w)
                       = tf_loop e after (say (ErrorProcessing tf_name err) w1)
                     \<and> ErrorProcessing tf_name err
                         \<in> set (stdout (snd (run_all_tfs e metadata_file w)))
                     \<and> filter is_running (stdout (snd (run_all_tfs e metadata_file w)))
                         = filter is_running (stdout w1) @ map RunningPipeline after"
      proof
        assume fails: "main e tf_name (say (RunningPipeline tf_name) (tf_loop e before w)) = (Inl err, w1)"
        note f = failing [OF fails]
        have "filter is_running (stdout (tf_loop e after (say (ErrorProcessing tf_name err) w1)))
            = filter is_running (stdout (say (ErrorProcessing tf_name err) w1)) @ map RunningPipeline after"
          by (rule tf_loop_running)
        then have started: "filter is_running (stdout (tf_loop e after (say (ErrorProcessing tf_name err) w1)))
            = filter is_running (stdout w1) @ map RunningPipeline after"
          by (simp add: say_def)
        have g1: "snd (run_all_tfs e metadata_file w)
            = tf_loop e after (say (ErrorProcessing tf_name err) w1)"
          unfolding rest by (rule f [THEN conjunct1])
        have g2: "ErrorProcessing tf_name err \<in> set (stdout (snd (run_all_tfs e metadata_file w)))"
          unfolding rest by (rule f [THEN conjunct2])
        have g3: "filter is_running (stdout (snd (run_all_tfs e metadata_file w)))
            = filter is_running (stdout w1) @ map RunningPipeline after"
          unfolding g1 by (rule started)
        from g1 g2 g3 show "snd (run_all_tfs e metadata_file w)
                       = tf_loop e after (say (ErrorProcessing tf_name err) w1)
                     \<and> ErrorProcessing tf_name err
                         \<in> set (stdout (snd (run_all_tfs e metadata_file w)))
                     \<and> filter is_running (stdout (snd (run_all_tfs e metadata_file w)))
                         = filter is_running (stdout w1) @ map RunningPipeline after"
          by (intro conjI)
      qed
      from whole caught show "snd (run_all_tfs e metadata_file w)
                 = tf_loop e after (tf_loop e [tf_name] (tf_loop e before w))
               \<and> (main e tf_name (say (RunningPipeline tf_name) (tf_loop e before w)) = (Inl err, w1) \<longrightarrow>
                     snd (run_all_tfs e metadata_file w)
                       = tf_loop e after (say (ErrorProcessing tf_name err) w1)
                     \<and> ErrorProcessing tf_name err
                         \<in> set (stdout (snd (run_all_tfs e metadata_file w)))
                     \<and> filter is_running (stdout (snd (run_all_tfs e metadata_file w)))
                         = filter is_running (stdout w1) @ map RunningPipeline after)" ..
    qed
    from run lines each show "run_all_tfs e metadata_file w = (Inr (), tf_loop e ?names w)
         \<and> filter is_running (stdout (snd (run_all_tfs e metadata_file w)))
             = filter is_running (stdout w) @ map RunningPipeline ?names
         \<and> (?names = before @ tf_name # after \<longrightarrow>
               snd (run_all_tfs e metadata_file w)
                 = tf_loop e after (tf_loop e [tf_name] (tf_loop e before w))
               \<and> (main e tf_name (say (RunningPipeline tf_name) (tf_loop e before w)) = (Inl err, w1) \<longrightarrow>
                     snd (run_all_tfs e metadata_file w)
                       = tf_loop e after (say (ErrorProcessing tf_name err) w1)
                     \<and> ErrorProcessing tf_name err
                         \<in> set (stdout (snd (run_all_tfs e metadata_file w)))
                     \<and> filter is_running (stdout (snd (run_all_tfs e metadata_file w)))
                         = filter is_running (stdout w1) @ map RunningPipeline after))"
      by (intro conjI)
  qed
  have c4: "tf_loop e [tf_name] v
       = (case main e tf_name (say (RunningPipeline tf_name) v) of
            (Inl failure, v1) \<Rightarrow> say (ErrorProcessing tf_name failure) v1
          | (Inr u, v1) \<Rightarrow> v1)"
    by (simp split: prod.splits sum.splits)
  have c5: "filter is_running (stdout (tf_loop e unique_tfs w))
       = filter is_running (stdout w) @ map RunningPipeline unique_tfs"
    by (rule tf_loop_running)
  have c7: "main e tf_name (say (RunningPipeline tf_name) v) = (Inl err, w1) \<longrightarrow>
         tf_loop e (tf_name # after) v = tf_loop e after (say (ErrorProcessing tf_name err) w1)
         \<and> ErrorProcessing tf_name err \<in> set (stdout (tf_loop e (tf_name # after) v))"
    using failing [of v] by blast
  from c1 c2 c3 c4 c5 split c7 show ?thesis
    by (intro conjI)
qed

theorem run_all_tfs_isolates_failures_witness:
  "xlsx net_down metadata_xlsx sheet_name = Inr two_tf_sheet
   \<and> dropna_unique (map yeast_target_common_name two_tf_sheet) = [''Abf1'', ''Reb1'']
   \<and> main net_down ''Abf1'' (say (RunningPipeline ''Abf1'') empty_world)
       = (Inl ConnectionError, abf1_down)
   \<and> main net_down ''Reb1''
        (say (RunningPipeline ''Reb1'') (say (ErrorProcessing ''Abf1'' ConnectionError) abf1_down))
       = (Inl ConnectionError, reb1_down)
   \<and> run_all_tfs net_down metadata_xlsx empty_world
       = (Inr (), say (ErrorProcessing ''Reb1'' ConnectionError) reb1_down)
   \<and> filter is_running (stdout (snd (run_all_tfs net_down metadata_xlsx empty_world)))
       = [RunningPipeline ''Abf1'', RunningPipeline ''Reb1'']
   \<and> ErrorProcessing ''Abf1'' ConnectionError
       \<in> set (stdout (snd (run_all_tfs net_down metadata_xlsx empty_world)))
   \<and> ErrorProcessing ''Reb1'' ConnectionError
       \<in> set (stdout (snd (run_all_tfs net_down metadata_xlsx empty_world)))
   \<and> tf_loop net_down [''Abf1'', ''Reb1''] empty_world
       = tf_loop net_down [''Reb1''] (say (ErrorProcessing ''Abf1'' ConnectionError) abf1_down)
   \<and> xlsx net_s1 metadata_xlsx sheet_name = Inl ExcelError
   \<and> run_all_tfs net_s1 metadata_xlsx empty_world = (Inl ExcelError, empty_world)"
proof -
  let ?run = "run_all_tfs net_down metadata_xlsx empty_world"
  have sheet: "xlsx net_down metadata_xlsx sheet_name = Inr two_tf_sheet"
    by (simp add: net_down_def)
  have names: "dropna_unique (map yeast_target_common_name two_tf_sheet) = [''Abf1'', ''Reb1'']"
    by (simp add: dropna_unique_def two_tf_sheet_def drop_duplicates_def drop_duplicates_by_def)
  have first: "dropna_unique (map yeast_target_common_name two_tf_sheet) = [] @ ''Abf1'' # [''Reb1'']"
    by (simp add: names)
  have last: "dropna_unique (map yeast_target_common_name two_tf_sheet) = [''Abf1''] @ ''Reb1'' # []"
    by (simp add: names)
  have reps1: "get_replicates_for_tf net_down ''Abf1'' metadata_xlsx = Inr [(''R1'', ''S1'')]"
    by (simp add: get_replicates_for_tf_def net_down_def two_tf_sheet_def str_lower_def
        str_strip_def isspace_def lower_char_def char_of_eq_iff drop_duplicates_def
        drop_duplicates_by_def)
  have reps2: "get_replicates_for_tf net_down ''Reb1'' metadata_xlsx = Inr [(''R1'', ''S2'')]"
    by (simp add: get_replicates_for_tf_def net_down_def two_tf_sheet_def str_lower_def
        str_strip_def isspace_def lower_char_def char_of_eq_iff drop_duplicates_def
        drop_duplicates_by_def)
  have cap: "str_capitalize ''Abf1'' = ''Abf1''" "str_capitalize ''Reb1'' = ''Reb1''"
    by (simp_all add: str_capitalize_def lower_char_def upper_char_def char_of_eq_iff)
  have down: "http net_down url = NoResponse" for url
    by (simp add: net_down_def)
  have main1: "main net_down ''Abf1'' (say (RunningPipeline ''Abf1'') empty_world)
      = (Inl ConnectionError, abf1_down)"
    by (simp add: main_def reps1 load_tf_chexmix_bed_def download_tf_chexmix_bed_def cap Let_def
        path_join_def path_exists_def isfile_def isdir_def makedirs_def say_def requests_get_def
        down empty_world_def abf1_down_def chexmix_url_def data_dir_def)
  have main2: "main net_down ''Reb1''
        (say (RunningPipeline ''Reb1'') (say (ErrorProcessing ''Abf1'' ConnectionError) abf1_down))
      = (Inl ConnectionError, reb1_down)"
    by (simp add: main_def reps2 load_tf_chexmix_bed_def download_tf_chexmix_bed_def cap Let_def
        path_join_def path_exists_def isfile_def isdir_def makedirs_def say_def requests_get_def
        down abf1_down_def reb1_down_def chexmix_url_def data_dir_def)
  have before1: "tf_loop net_down [] empty_world = empty_world"
    by simp
  have before2: "tf_loop net_down [''Abf1''] empty_world
      = say (ErrorProcessing ''Abf1'' ConnectionError) abf1_down"
    by (simp add: main1)
  note t1 = run_all_tfs_isolates_failures [of net_down metadata_xlsx empty_world _ two_tf_sheet
      "[]" "''Abf1''" "[''Reb1'']" ConnectionError abf1_down empty_world]
  note t3 = run_all_tfs_isolates_failures [of net_s1 metadata_xlsx empty_world ExcelError]
  have unreadable: "xlsx net_s1 metadata_xlsx sheet_name = Inl ExcelError"
    by (simp add: net_s1_def)
  have aborted: "run_all_tfs net_s1 metadata_xlsx empty_world = (Inl ExcelError, empty_world)"
    using t3 [THEN conjunct2, THEN conjunct1, THEN mp, OF unreadable] .
  have step: "tf_loop net_down [''Abf1'', ''Reb1''] empty_world
       = tf_loop net_down [''Reb1''] (say (ErrorProcessing ''Abf1'' ConnectionError) abf1_down)"
    using t1 [THEN conjunct2, THEN conjunct2, THEN conjunct2, THEN conjunct2, THEN conjunct2,
        THEN conjunct2, THEN mp, OF main1, THEN conjunct1] .
  note t2 = run_all_tfs_isolates_failures [of net_down metadata_xlsx empty_world _ two_tf_sheet
      "[''Abf1'']" "''Reb1''" "[]" ConnectionError reb1_down]
  note s1 = t1 [THEN conjunct2, THEN conjunct2, THEN conjunct1, THEN mp, OF sheet]
  note s2 = t2 [THEN conjunct2, THEN conjunct2, THEN conjunct1, THEN mp, OF sheet]
  have lines: "filter is_running (stdout (snd ?run)) = [RunningPipeline ''Abf1'', RunningPipeline ''Reb1'']"
    using s1 [THEN conjunct2, THEN conjunct1] by (simp add: names empty_world_def)
  have m1: "main net_down ''Abf1'' (say (RunningPipeline ''Abf1'') (tf_loop net_down [] empty_world))
      = (Inl ConnectionError, abf1_down)"
    by (simp only: before1 main1)
  have m2: "main net_down ''Reb1'' (say (RunningPipeline ''Reb1'') (tf_loop net_down [''Abf1''] empty_world))
      = (Inl ConnectionError, reb1_down)"
    by (simp only: before2 main2)
  note f1 = s1 [THEN conjunct2, THEN conjunct2, THEN mp, OF first, THEN conjunct2, THEN mp, OF m1]
  note f2 = s2 [THEN conjunct2, THEN conjunct2, THEN mp, OF last, THEN conjunct2, THEN mp, OF m2]
  have e1: "ErrorProcessing ''Abf1'' ConnectionError \<in> set (stdout (snd ?run))"
    using f1 by blast
  have e2: "ErrorProcessing ''Reb1'' ConnectionError \<in> set (stdout (snd ?run))"
    using f2 by blast
  have "snd ?run = tf_loop net_down [] (say (ErrorProcessing ''Reb1'' ConnectionError) reb1_down)"
    using f2 by blast
  then have state: "snd ?run = say (ErrorProcessing ''Reb1'' ConnectionError) reb1_down"
    by simp
  have "fst ?run = Inr ()"
    using t1 [THEN conjunct1] by (simp only: sheet sum.case)
  with state have run: "?run = (Inr (), say (ErrorProcessing ''Reb1'' ConnectionError) reb1_down)"
    by (simp add: prod_eq_iff)
  from sheet names main1 main2 run lines e1 e2 step unreadable aborted show ?thesis
    by (intro conjI)
qed

section \<open>A reference peak file with the wrong number of columns\<close>

lemma download_tf_effects:
  "download_tf_chexmix_bed e tf dest w = (r, w') \<Longrightarrow>
   filter is_to_csv (io_log w') = filter is_to_csv (io_log w)"
  by (auto simp: download_tf_chexmix_bed_def Let_def requests_get_def raise_for_status_def
      say_def dest!: write_file_Inr split: if_splits sum.splits response.splits)

text \<open>
  C8. When the reference peak file of the TF (just downloaded, or cached) parses into a
  table that does not have exactly six columns, naming the six columns fails:
  \<open>load_tf_chexmix_bed\<close> raises the length-mismatch error (pandas' \<open>ValueError\<close>, the
  specification's FormatError) and \<open>main\<close> ends with that error in the state the
  download left. No replicate was started, no motif table was joined or printed, and
  no table was written.
\<close>

theorem load_tf_chexmix_bed_column_count:
  "get_replicates_for_tf e tf_name metadata_xlsx = Inr replicates \<Longrightarrow>
   download_tf_chexmix_bed e tf_name data_dir
       (makedirs data_dir (say (FoundReplicates (length replicates) tf_name) w)) = (Inr bed_file, w1) \<Longrightarrow>
   read_csv w1 bed_file = Inr (n, rows) \<Longrightarrow> n \<noteq> 6 \<Longrightarrow>
   load_tf_chexmix_bed e tf_name data_dir (say (FoundReplicates (length replicates) tf_name) w)
       = (Inl (LengthMismatch n 6), w1)
   \<and> main e tf_name w = (Inl (LengthMismatch n 6), w1)
   \<and> filter is_replicate_line (stdout w1) = filter is_replicate_line (stdout w)
   \<and> filter is_to_csv (io_log w1) = filter is_to_csv (io_log w)"
proof -
  let ?w0 = "say (FoundReplicates (length replicates) tf_name) w"
  assume reps: "get_replicates_for_tf e tf_name metadata_xlsx = Inr replicates"
    and down: "download_tf_chexmix_bed e tf_name data_dir (makedirs data_dir ?w0) = (Inr bed_file, w1)"
    and parsed: "read_csv w1 bed_file = Inr (n, rows)" and n: "n \<noteq> 6"
  have load: "load_tf_chexmix_bed e tf_name data_dir ?w0 = (Inl (LengthMismatch n 6), w1)"
    using down parsed n by (simp add: load_tf_chexmix_bed_def set_columns_def)
  then have run: "main e tf_name w = (Inl (LengthMismatch n 6), w1)"
    using reps by (simp add: main_def)
  have p0: "prints_only (\<lambda>m. \<not> is_replicate_line m) w ?w0"
    by (rule prints_only_say) simp
  have "prints_only fetch_message ?w0 w1"
    using load by (rule load_tf_prints)
  then have "prints_only (\<lambda>m. \<not> is_replicate_line m) ?w0 w1"
    by (rule prints_only_mono) (case_tac m, simp_all)
  with p0 have "prints_only (\<lambda>m. \<not> is_replicate_line m) w w1"
    by (rule prints_only_trans)
  then have quiet: "filter is_replicate_line (stdout w1) = filter is_replicate_line (stdout w)"
    by (rule prints_only_filter) simp
  have "filter is_to_csv (io_log w1) = filter is_to_csv (io_log (makedirs data_dir ?w0))"
    using down by (rule download_tf_effects)
  then have effects: "filter is_to_csv (io_log w1) = filter is_to_csv (io_log w)"
    by (simp add: makedirs_def)
  from load run quiet effects show ?thesis by (intro conjI)
qed

theorem load_tf_chexmix_bed_column_count_witness:
  "get_replicates_for_tf net_five ''Abf1'' metadata_xlsx = Inr [(''R1'', ''S1'')]
   \<and> (5::nat) \<noteq> 6
   \<and> fst (main net_five ''Abf1'' empty_world) = Inl (LengthMismatch 5 6)
   \<and> filter is_replicate_line (stdout (snd (main net_five ''Abf1'' empty_world))) = []
   \<and> filter is_to_csv (io_log (snd (main net_five ''Abf1'' empty_world))) = []"
proof -
  let ?p = "data_dir @ ''/Abf1_CX.bed''"
  let ?w1 = "\<lparr>files = [(?p, five_columns)], dirs = [data_dir],
      stdout = [FoundReplicates 1 ''Abf1'',
                DownloadingFrom ''Abf1_CX.bed'' (chexmix_url ''Abf1_CX.bed''), SavedTo ?p],
      io_log = [HttpGet (chexmix_url ''Abf1_CX.bed''), WriteFile ?p]\<rparr>"
  have reps: "get_replicates_for_tf net_five ''Abf1'' metadata_xlsx = Inr [(''R1'', ''S1'')]"
    by (simp add: get_replicates_for_tf_def net_five_def two_tf_sheet_def str_lower_def
        str_strip_def isspace_def lower_char_def char_of_eq_iff drop_duplicates_def
        drop_duplicates_by_def)
  have cap: "str_capitalize ''Abf1'' = ''Abf1''"
    by (simp add: str_capitalize_def lower_char_def upper_char_def char_of_eq_iff)
  have down: "download_tf_chexmix_bed net_five ''Abf1'' data_dir
       (makedirs data_dir (say (FoundReplicates (length [(''R1'', ''S1'')]) ''Abf1'') empty_world))
       = (Inr ?p, ?w1)"
    by (simp add: download_tf_chexmix_bed_def cap Let_def path_join_def path_exists_def isfile_def
        isdir_def makedirs_def say_def requests_get_def raise_for_status_def write_file_def
        dirname_def net_five_def empty_world_def chexmix_url_def data_dir_def)
  have parsed: "read_csv ?w1 ?p = Inr (5, [])"
    by (simp add: read_csv_def five_columns_def)
  have five: "(5::nat) \<noteq> 6" by simp
  note t = load_tf_chexmix_bed_column_count [OF reps down parsed five]
  from t have run: "main net_five ''Abf1'' empty_world = (Inl (LengthMismatch 5 6), ?w1)"
    by blast
  from t have "filter is_replicate_line (stdout ?w1) = filter is_replicate_line (stdout empty_world)"
    by blast
  then have a: "filter is_replicate_line (stdout ?w1) = []"
    by (simp add: empty_world_def)
  from t have "filter is_to_csv (io_log ?w1) = filter is_to_csv (io_log empty_world)"
    by blast
  then have b: "filter is_to_csv (io_log ?w1) = []"
    by (simp add: empty_world_def)
  from reps five a b show ?thesis
    by (simp only: run fst_conv snd_conv simp_thms)
qed

section \<open>The loop over the replicates\<close>

lemma replicate_loop_append:
  "replicate_loop e cx (xs @ ys) acc w =
     (case replicate_loop e cx xs acc w of
        (Inl err, w') \<Rightarrow> (Inl err, w')
      | (Inr acc', w') \<Rightarrow> replicate_loop e cx ys acc' w')"
proof (induction xs arbitrary: acc w)
  case Nil
  show ?case by simp
next
  case (Cons row xs)
  obtain rn sid where row: "row = (rn, sid)" by (cases row)
  show ?case
    unfolding row append_Cons
    by (simp add: replicate_loop.simps(2) Cons.IH Let_def split: prod.splits sum.splits)
qed

lemma ensure_downloaded_no_csv:
  "ensure_downloaded e sid dest w = (r, w') \<Longrightarrow>
   filter is_to_csv (io_log w') = filter is_to_csv (io_log w)"
  by (auto simp: ensure_downloaded_def requests_get_def raise_for_status_def
      say_def Let_def dest!: write_file_Inr split: if_splits sum.splits response.splits)

lemma ensure_extracted_no_csv:
  assumes run: "ensure_extracted sid dest w = (r, w')"
  shows "filter is_to_csv (io_log w') = filter is_to_csv (io_log w)"
proof (cases "isdir w (extract_path_of dest sid)")
  case True
  with run show ?thesis
    by (auto simp: ensure_extracted_def say_def)
next
  case False
  let ?w4 = "say (Extracting (zip_filename_of dest sid) (extract_path_of dest sid)) w"
  obtain rx w5 where x: "extractall (zip_filename_of dest sid) (extract_path_of dest sid) ?w4 = (rx, w5)"
    by (cases "extractall (zip_filename_of dest sid) (extract_path_of dest sid) ?w4")
  from run False x have "w' = w5"
    by (auto simp: ensure_extracted_def split: sum.splits)
  moreover have "io_log w5 = io_log ?w4
      \<or> io_log w5 = io_log ?w4 @ [ExtractAll (zip_filename_of dest sid) (extract_path_of dest sid)]"
    using extractall_facts [OF x] by simp
  ultimately show ?thesis
    by (auto simp: say_def)
qed

lemma fetch_no_csv:
  "download_and_extract_zip e sid dest w = (r, w') \<Longrightarrow>
   filter is_to_csv (io_log w') = filter is_to_csv (io_log w)"
proof -
  assume run: "download_and_extract_zip e sid dest w = (r, w')"
  obtain rd w3 where d: "ensure_downloaded e sid dest w = (rd, w3)"
    by (cases "ensure_downloaded e sid dest w")
  note first = ensure_downloaded_no_csv [OF d]
  show ?thesis
  proof (cases rd)
    case (Inl err)
    with run d have "w' = w3" by (simp add: download_and_extract_zip_halves)
    with first show ?thesis by simp
  next
    case (Inr u)
    with run d have "ensure_extracted sid dest w3 = (r, w')"
      by (simp add: download_and_extract_zip_halves)
    from ensure_extracted_no_csv [OF this] first show ?thesis by simp
  qed
qed

lemma load_all_no_csv:
  "load_all_motif_bed_files ep sid w = (r, w') \<Longrightarrow>
   filter is_to_csv (io_log w') = filter is_to_csv (io_log w)"
  using loop_result [of ep sid 1 "[]" w r w'] by (simp add: load_all_motif_bed_files_def)

lemma load_tf_no_csv:
  "load_tf_chexmix_bed e tf dir w = (r, w') \<Longrightarrow>
   filter is_to_csv (io_log w') = filter is_to_csv (io_log w)"
proof -
  assume run: "load_tf_chexmix_bed e tf dir w = (r, w')"
  obtain rd w1 where d: "download_tf_chexmix_bed e tf dir (makedirs dir w) = (rd, w1)"
    by (cases "download_tf_chexmix_bed e tf dir (makedirs dir w)")
  have "w' = w1"
    using run d by (auto simp: load_tf_chexmix_bed_def split: sum.splits)
  with download_tf_effects [OF d] show ?thesis by (simp add: makedirs_def)
qed

text \<open>
  The loop of main writes no table, and it returns one table for every replicate it did
  not skip for lack of motif files.
\<close>

lemma replicate_loop_counts:
  "replicate_loop e cx rows acc w = (r, w') \<Longrightarrow>
   filter is_to_csv (io_log w') = filter is_to_csv (io_log w)
   \<and> (\<forall>aggs. r = Inr aggs \<longrightarrow>
         length aggs + length (filter is_skip (stdout w'))
           = length acc + length rows + length (filter is_skip (stdout w)))"
proof (induction rows arbitrary: acc w)
  case Nil
  then show ?case by auto
next
  case (Cons row rows)
  obtain rn sid where row: "row = (rn, sid)" by (cases row)
  let ?w1 = "say (ProcessingReplicate rn sid) w"
  obtain rd w2 where d: "download_and_extract_zip e sid data_dir ?w1 = (rd, w2)"
    by (cases "download_and_extract_zip e sid data_dir ?w1")
  have csv2: "filter is_to_csv (io_log w2) = filter is_to_csv (io_log w)"
    using fetch_no_csv [OF d] by simp
  have "filter is_skip (stdout w2) = filter is_skip (stdout ?w1)"
    by (rule prints_only_filter [OF fetch_prints [OF d]]) (case_tac m, simp_all)
  then have skip2: "filter is_skip (stdout w2) = filter is_skip (stdout w)"
    by simp
  show ?case
  proof (cases rd)
    case (Inl err)
    with Cons.prems row d csv2 show ?thesis by (auto simp: replicate_fetch_fails)
  next
    case (Inr xp)
    obtain rl w3 where l: "load_all_motif_bed_files xp sid w2 = (rl, w3)"
      by (cases "load_all_motif_bed_files xp sid w2")
    have csv3: "filter is_to_csv (io_log w3) = filter is_to_csv (io_log w)"
      using load_all_no_csv [OF l] csv2 by simp
    have "filter is_skip (stdout w3) = filter is_skip (stdout w2)"
      by (rule prints_only_filter [OF load_all_prints [OF l]]) (case_tac m, simp_all)
    with skip2 have skip3: "filter is_skip (stdout w3) = filter is_skip (stdout w)"
      by simp
    show ?thesis
    proof (cases rl)
      case (Inl err)
      with Cons.prems row d l Inr csv3 show ?thesis by (auto simp: replicate_load_fails)
    next
      case dict: (Inr dfs)
      show ?thesis
      proof (cases "dfs = []")
        case True
        let ?w4 = "say (NoMotifFiles sid) w3"
        have run: "replicate_loop e cx rows acc ?w4 = (r, w')"
          using Cons.prems row d l Inr dict True by (simp add: replicate_skip)
        from Cons.IH [OF run] csv3 skip3 show ?thesis by simp
      next
        case False
        let ?w4 = "w3\<lparr>stdout := stdout w3 @ map PrintFrame (snd (merge_motif_with_chexmix dfs cx))\<rparr>"
        have run: "replicate_loop e cx rows
            (acc @ [map (add_sample_columns sid rn) (fst (merge_motif_with_chexmix dfs cx))]) ?w4 = (r, w')"
          using Cons.prems row d l Inr dict False by (simp add: replicate_join)
        have "filter is_skip (map PrintFrame ms) = []" for ms
          by (induction ms) simp_all
        with Cons.IH [OF run] csv3 skip3 show ?thesis by simp
      qed
    qed
  qed
qed

lemma char_eq_char_of: "(c = char_of (n::nat)) = (take_bit 8 n = of_char c)"
  using char_of_eq_iff [of n c] by auto

lemma capitalize_abf1: "str_capitalize ''Abf1'' = ''Abf1''"
  by (simp add: str_capitalize_def lower_char_def upper_char_def char_of_eq_iff)

lemma lower_abf1: "str_lower ''Abf1'' = ''abf1''"
  by (simp add: str_lower_def lower_char_def char_of_eq_iff)

lemma abf1_replicates:
  "get_replicates_for_tf net_s1_missing ''Abf1'' metadata_xlsx = Inr [(''R1'', ''S1''), (''R2'', ''S2'')]"
  by (simp add: get_replicates_for_tf_def net_s1_missing_def abf1_sheet_def str_lower_def
      str_strip_def isspace_def lower_char_def char_of_eq_iff char_eq_char_of
      drop_duplicates_def drop_duplicates_by_def)

lemma peaks_loaded_eval:
  "http e (chexmix_url ''Abf1_CX.bed'') = Response 200 (Tsv 6 [bed_150]) \<Longrightarrow>
   load_tf_chexmix_bed e ''Abf1'' data_dir (say (FoundReplicates n ''Abf1'') empty_world)
     = (Inr [peak_150], peaks_loaded n)"
  by (simp add: load_tf_chexmix_bed_def download_tf_chexmix_bed_def capitalize_abf1 Let_def
      path_join_def path_exists_def isfile_def isdir_def makedirs_def say_def requests_get_def
      raise_for_status_def write_file_def dirname_def empty_world_def chexmix_url_def data_dir_def
      read_csv_def set_columns_def chexmix_columns_def bed_150_def peak_150_def peaks_loaded_def)

lemma s1_fetch_fails:
  "download_and_extract_zip net_s1_missing ''S1'' data_dir
      (say (ProcessingReplicate ''R1'' ''S1'') (peaks_loaded 2)) = (Inl (HTTPError 404), s1_failed)"
  by (simp add: download_and_extract_zip_def Let_def path_join_def isfile_def say_def
      requests_get_def raise_for_status_def net_s1_missing_def peaks_loaded_def s1_failed_def
      zip_url_def chexmix_url_def base_url_def data_dir_def)

lemma s1_run:
  "main net_s1_missing ''Abf1'' empty_world = (Inl (HTTPError 404), s1_failed)"
proof -
  have http: "http net_s1_missing (chexmix_url ''Abf1_CX.bed'') = Response 200 (Tsv 6 [bed_150])"
    by (simp add: net_s1_missing_def)
  have len: "length [(''R1'', ''S1''), (''R2'', ''S2'')] = 2"
    by simp
  have loop: "replicate_loop net_s1_missing [peak_150] [(''R1'', ''S1''), (''R2'', ''S2'')] [] (peaks_loaded 2)
      = (Inl (HTTPError 404), s1_failed)"
    by (rule replicate_fetch_fails [OF s1_fetch_fails])
  show ?thesis
    by (simp only: main_def abf1_replicates sum.case Let_def len peaks_loaded_eval [OF http]
        prod.case loop)
qed

text \<open>
  C3, as the specification states it, fails: with two replicates for the TF, where the
  archive of the first sample answers 404 and the archive of the second is available,
  \<open>main\<close> ends with the HTTP error; the second replicate is never started and its
  archive is never requested.
\<close>

theorem one_sample_failure_counterexample:
  "get_replicates_for_tf net_s1_missing ''Abf1'' metadata_xlsx = Inr [(''R1'', ''S1''), (''R2'', ''S2'')]
   \<and> http net_s1_missing (zip_url ''S1'') = Response 404 Blob
   \<and> http net_s1_missing (zip_url ''S2'') = Response 200 archive_s2
   \<and> fst (main net_s1_missing ''Abf1'' empty_world) = Inl (HTTPError 404)
   \<and> ProcessingReplicate ''R2'' ''S2'' \<notin> set (stdout (snd (main net_s1_missing ''Abf1'' empty_world)))
   \<and> HttpGet (zip_url ''S2'') \<notin> set (io_log (snd (main net_s1_missing ''Abf1'' empty_world)))"
proof -
  have a: "http net_s1_missing (zip_url ''S1'') = Response 404 Blob"
    by (simp add: net_s1_missing_def zip_url_def chexmix_url_def base_url_def)
  have b: "http net_s1_missing (zip_url ''S2'') = Response 200 archive_s2"
    by (simp add: net_s1_missing_def zip_url_def chexmix_url_def base_url_def)
  have c: "ProcessingReplicate ''R2'' ''S2'' \<notin> set (stdout s1_failed)"
    by (simp add: s1_failed_def peaks_loaded_def)
  have d: "HttpGet (zip_url ''S2'') \<notin> set (io_log s1_failed)"
    by (simp add: s1_failed_def peaks_loaded_def zip_url_def chexmix_url_def base_url_def)
  from abf1_replicates a b c d show ?thesis
    by (simp only: s1_run fst_conv snd_conv simp_thms)
qed

text \<open>
  C3, amended. Nothing in \<open>main\<close> catches an error of one sample. When the replicates
  before a given one were processed and the fetch of that replicate fails (no response,
  or a 4xx or 5xx status, or a file that is not an archive) or reading its motif files
  fails, the loop over the replicates ends with that error in the state the failing
  step left, and so does \<open>main\<close>: the remaining replicates are not processed and no
  table is written for the TF.
\<close>

theorem replicate_failure_aborts_run:
  "get_replicates_for_tf e tf_name metadata_xlsx = Inr (before @ (rn, sid) # after) \<Longrightarrow>
   load_tf_chexmix_bed e tf_name data_dir
       (say (FoundReplicates (length (before @ (rn, sid) # after)) tf_name) w) = (Inr cx, w2) \<Longrightarrow>
   replicate_loop e cx before [] w2 = (Inr acc, w3) \<Longrightarrow>
   download_and_extract_zip e sid data_dir (say (ProcessingReplicate rn sid) w3) = (Inl err, w4)
     \<or> (\<exists>xp w'. download_and_extract_zip e sid data_dir (say (ProcessingReplicate rn sid) w3)
                    = (Inr xp, w')
                \<and> load_all_motif_bed_files xp sid w' = (Inl err, w4)) \<Longrightarrow>
   replicate_loop e cx (before @ (rn, sid) # after) [] w2 = (Inl err, w4)
   \<and> main e tf_name w = (Inl err, w4)
   \<and> filter is_to_csv (io_log w4) = filter is_to_csv (io_log w)"
proof -
  let ?reps = "before @ (rn, sid) # after"
  let ?w0 = "say (FoundReplicates (length ?reps) tf_name) w"
  assume reps: "get_replicates_for_tf e tf_name metadata_xlsx = Inr ?reps"
    and load: "load_tf_chexmix_bed e tf_name data_dir ?w0 = (Inr cx, w2)"
    and ok: "replicate_loop e cx before [] w2 = (Inr acc, w3)"
    and fails: "download_and_extract_zip e sid data_dir (say (ProcessingReplicate rn sid) w3) = (Inl err, w4)
     \<or> (\<exists>xp w'. download_and_extract_zip e sid data_dir (say (ProcessingReplicate rn sid) w3)
                    = (Inr xp, w')
                \<and> load_all_motif_bed_files xp sid w' = (Inl err, w4))"
  have here: "replicate_loop e cx ((rn, sid) # after) acc w3 = (Inl err, w4)"
    using fails by (auto simp: replicate_fetch_fails replicate_load_fails)
  have loop: "replicate_loop e cx ?reps [] w2 = (Inl err, w4)"
    using ok here by (simp add: replicate_loop_append)
  then have run: "main e tf_name w = (Inl err, w4)"
    using reps load by (simp add: main_def)
  have "filter is_to_csv (io_log w4) = filter is_to_csv (io_log w2)"
    using replicate_loop_counts [OF loop] by simp
  also have "\<dots> = filter is_to_csv (io_log ?w0)"
    using load by (rule load_tf_no_csv)
  finally have quiet: "filter is_to_csv (io_log w4) = filter is_to_csv (io_log w)"
    by simp
  from loop run quiet show ?thesis by (intro conjI)
qed

theorem replicate_failure_aborts_run_witness:
  "get_replicates_for_tf net_s1_missing ''Abf1'' metadata_xlsx
     = Inr ([] @ (''R1'', ''S1'') # [(''R2'', ''S2'')])
   \<and> download_and_extract_zip net_s1_missing ''S1'' data_dir
        (say (ProcessingReplicate ''R1'' ''S1'') (peaks_loaded 2)) = (Inl (HTTPError 404), s1_failed)
   \<and> main net_s1_missing ''Abf1'' empty_world = (Inl (HTTPError 404), s1_failed)
   \<and> filter is_to_csv (io_log s1_failed) = []"
proof -
  have http: "http net_s1_missing (chexmix_url ''Abf1_CX.bed'') = Response 200 (Tsv 6 [bed_150])"
    by (simp add: net_s1_missing_def)
  have reps: "get_replicates_for_tf net_s1_missing ''Abf1'' metadata_xlsx
     = Inr ([] @ (''R1'', ''S1'') # [(''R2'', ''S2'')])"
    using abf1_replicates by simp
  have load: "load_tf_chexmix_bed net_s1_missing ''Abf1'' data_dir
       (say (FoundReplicates (length ([] @ (''R1'', ''S1'') # [(''R2'', ''S2'')])) ''Abf1'') empty_world)
     = (Inr [peak_150], peaks_loaded 2)"
  proof -
    have "length ([] @ (''R1'', ''S1'') # [(''R2'', ''S2'')]) = 2" by simp
    then show ?thesis by (simp only: peaks_loaded_eval [OF http])
  qed
  have ok: "replicate_loop net_s1_missing [peak_150] [] [] (peaks_loaded 2) = (Inr [], peaks_loaded 2)"
    by simp
  have fails: "download_and_extract_zip net_s1_missing ''S1'' data_dir
        (say (ProcessingReplicate ''R1'' ''S1'') (peaks_loaded 2)) = (Inl (HTTPError 404), s1_failed)
     \<or> (\<exists>xp w'. download_and_extract_zip net_s1_missing ''S1'' data_dir
                      (say (ProcessingReplicate ''R1'' ''S1'') (peaks_loaded 2)) = (Inr xp, w')
                \<and> load_all_motif_bed_files xp ''S1'' w' = (Inl (HTTPError 404), s1_failed))"
    using s1_fetch_fails by (rule disjI1)
  note t = replicate_failure_aborts_run [OF reps load ok fails]
  from t have run: "main net_s1_missing ''Abf1'' empty_world = (Inl (HTTPError 404), s1_failed)"
    by blast
  from t have "filter is_to_csv (io_log s1_failed) = filter is_to_csv (io_log empty_world)"
    by blast
  then have quiet: "filter is_to_csv (io_log s1_failed) = []"
    by (simp add: empty_world_def)
  from reps s1_fetch_fails run quiet show ?thesis by (intro conjI)
qed

section \<open>The end of main\<close>

lemma one_rep_replicates:
  "get_replicates_for_tf (net_one_sample members) ''Abf1'' metadata_xlsx = Inr [(''R1'', ''S1'')]"
  by (simp add: get_replicates_for_tf_def net_one_sample_def one_rep_sheet_def str_lower_def
      str_strip_def isspace_def lower_char_def char_of_eq_iff char_eq_char_of
      drop_duplicates_def drop_duplicates_by_def)

lemma one_sample_peaks:
  "http (net_one_sample members) (chexmix_url ''Abf1_CX.bed'') = Response 200 (Tsv 6 [bed_150])"
  by (simp add: net_one_sample_def)

lemma s1_fetch_far:
  "download_and_extract_zip (net_one_sample far_members) ''S1'' data_dir
      (say (ProcessingReplicate ''R1'' ''S1'') (peaks_loaded 1))
     = (Inr (data_dir @ ''/S1''), s1_extracted far_members)"
  by (simp add: download_and_extract_zip_def Let_def path_join_def isfile_def isdir_def say_def
      requests_get_def raise_for_status_def write_file_def dirname_def extractall_def
      extract_members.simps member_dirs_def net_one_sample_def far_members_def
      peaks_loaded_def s1_extracted_def zip_url_def chexmix_url_def base_url_def data_dir_def)

lemma s1_fetch_none:
  "download_and_extract_zip (net_one_sample []) ''S1'' data_dir
      (say (ProcessingReplicate ''R1'' ''S1'') (peaks_loaded 1))
     = (Inr (data_dir @ ''/S1''), s1_extracted [])"
  by (simp add: download_and_extract_zip_def Let_def path_join_def isfile_def isdir_def say_def
      requests_get_def raise_for_status_def write_file_def dirname_def extractall_def
      net_one_sample_def
      peaks_loaded_def s1_extracted_def zip_url_def chexmix_url_def base_url_def data_dir_def)

lemma load_all_single:
  assumes one: "isfile w (motif_file_path ep sid 1)"
    and two: "\<not> isfile w (motif_file_path ep sid 2)"
    and parsed: "parse_motif w (motif_file_path ep sid 1) = Inr t"
  shows "load_all_motif_bed_files ep sid w
    = (Inr [(1, t)], say (ReadingMotif (motif_file_path ep sid 1)) w)"
proof -
  have "load_motif_loop ep sid 1 [] w
      = load_motif_loop ep sid (1 + 1) (dict_set [] 1 t) (say (ReadingMotif (motif_file_path ep sid 1)) w)"
    using one parsed by (rule loop_good)
  also have "\<dots> = (Inr (dict_set [] 1 t), say (ReadingMotif (motif_file_path ep sid 1)) w)"
  proof (rule loop_absent)
    have "(1::nat) + 1 = 2" by simp
    with two show "\<not> isfile (say (ReadingMotif (motif_file_path ep sid 1)) w)
        (motif_file_path ep sid (1 + 1))"
      by (simp only: say_queries simp_thms)
  qed
  also have "dict_set [] 1 t = [(1, t)]"
    by (simp add: dict_set_def)
  finally show ?thesis
    by (simp add: load_all_motif_bed_files_def)
qed

lemma s1_motif_path_1:
  "motif_file_path (data_dir @ ''/S1'') ''S1'' 1 = data_dir @ ''/S1/S1_YEP/S1_Motif_1_FourColor.bed''"
  by (simp add: motif_file_path_def path_join_def str_nat.simps char_of_eq_iff data_dir_def)

lemma s1_motif_path_2:
  "motif_file_path (data_dir @ ''/S1'') ''S1'' 2 = data_dir @ ''/S1/S1_YEP/S1_Motif_2_FourColor.bed''"
  by (simp add: motif_file_path_def path_join_def str_nat.simps char_of_eq_iff data_dir_def)

lemma far_motifs_loaded:
  "load_all_motif_bed_files (data_dir @ ''/S1'') ''S1'' (s1_extracted far_members)
     = (Inr [(1, [motif_300_400])],
        say (ReadingMotif (motif_file_path (data_dir @ ''/S1'') ''S1'' 1)) (s1_extracted far_members))"
proof (rule load_all_single)
  show "isfile (s1_extracted far_members) (motif_file_path (data_dir @ ''/S1'') ''S1'' 1)"
    unfolding s1_motif_path_1
    by (simp add: isfile_def s1_extracted_def far_members_def)
  show "\<not> isfile (s1_extracted far_members) (motif_file_path (data_dir @ ''/S1'') ''S1'' 2)"
    unfolding s1_motif_path_2
    by (simp add: isfile_def s1_extracted_def far_members_def)
  show "parse_motif (s1_extracted far_members) (motif_file_path (data_dir @ ''/S1'') ''S1'' 1)
      = Inr [motif_300_400]"
    unfolding s1_motif_path_1
    by (simp add: parse_motif_def read_csv_def set_columns_def s1_extracted_def far_members_def
        motif_columns_def bed_300_400_def motif_300_400_def)
qed

lemma no_motifs_loaded:
  "load_all_motif_bed_files (data_dir @ ''/S1'') ''S1'' (s1_extracted []) = (Inr [], s1_extracted [])"
proof -
  have "\<not> isfile (s1_extracted []) (motif_file_path (data_dir @ ''/S1'') ''S1'' 1)"
    unfolding s1_motif_path_1
    by (simp add: isfile_def s1_extracted_def)
  then show ?thesis
    by (simp add: load_all_motif_bed_files_def loop_absent)
qed

lemma far_join: "merge_motif_with_chexmix [(1, [motif_300_400])] [peak_150] = ([], [[motif_300_400]])"
  by (simp add: merge_motif_with_chexmix_def pd_merge_def condition_def merged_of_def
      drop_duplicates_def drop_duplicates_by_def motif_300_400_def peak_150_def)

lemma far_loop:
  "replicate_loop (net_one_sample far_members) [peak_150] [(''R1'', ''S1'')] [] (peaks_loaded 1)
     = (Inr [[]], far_joined)"
proof -
  have "replicate_loop (net_one_sample far_members) [peak_150] [(''R1'', ''S1'')] [] (peaks_loaded 1)
      = replicate_loop (net_one_sample far_members) [peak_150] []
          ([] @ [map (add_sample_columns ''S1'' ''R1'')
                   (fst (merge_motif_with_chexmix [(1, [motif_300_400])] [peak_150]))])
          ((say (ReadingMotif (motif_file_path (data_dir @ ''/S1'') ''S1'' 1)) (s1_extracted far_members))
             \<lparr>stdout := stdout (say (ReadingMotif (motif_file_path (data_dir @ ''/S1'') ''S1'' 1))
                                  (s1_extracted far_members))
                        @ map PrintFrame (snd (merge_motif_with_chexmix [(1, [motif_300_400])] [peak_150]))\<rparr>)"
    by (rule replicate_join [OF s1_fetch_far far_motifs_loaded]) simp
  then show ?thesis
    by (simp only: far_join fst_conv snd_conv list.map append_Nil replicate_loop.simps(1)
        far_joined_def)
qed

lemma far_run:
  "main (net_one_sample far_members) ''Abf1'' empty_world
     = (Inr (), say PipelineFinished
          (to_csv [] output_columns (output_bed_file ''Abf1'')
             (say (SavingResults (output_bed_file ''Abf1'')) far_joined)))"
proof -
  have len: "length [(''R1'', ''S1'')] = 1" by simp
  have final: "final_df [[]] = []"
    by (simp add: final_df_def drop_duplicates_by_def)
  have some: "[[]] \<noteq> ([] :: agg_row list list)" by simp
  show ?thesis
    by (simp only: main_def one_rep_replicates sum.case Let_def len
        peaks_loaded_eval [OF one_sample_peaks] prod.case far_loop some if_True final simp_thms)
qed

text \<open>
  C4, as the specification states it, fails: with one replicate whose only motif row
  does not contain the start of the only reference peak, no replicate produces a joined
  row, and yet \<open>main\<close> writes the output file (with no rows) and does not report "no
  results".
\<close>

theorem empty_join_counterexample:
  "get_replicates_for_tf (net_one_sample far_members) ''Abf1'' metadata_xlsx = Inr [(''R1'', ''S1'')]
   \<and> fst (merge_motif_with_chexmix [(1, [motif_300_400])] [peak_150]) = []
   \<and> fst (replicate_loop (net_one_sample far_members) [peak_150] [(''R1'', ''S1'')] []
            (peaks_loaded 1)) = Inr [[]]
   \<and> fst (main (net_one_sample far_members) ''Abf1'' empty_world) = Inr ()
   \<and> map_of (files (snd (main (net_one_sample far_members) ''Abf1'' empty_world)))
        (output_bed_file ''Abf1'') = Some (Csv output_columns [])
   \<and> ToCsv (output_bed_file ''Abf1'')
        \<in> set (io_log (snd (main (net_one_sample far_members) ''Abf1'' empty_world)))
   \<and> NoResults \<notin> set (stdout (snd (main (net_one_sample far_members) ''Abf1'' empty_world)))"
proof -
  let ?final = "say PipelineFinished
          (to_csv [] output_columns (output_bed_file ''Abf1'')
             (say (SavingResults (output_bed_file ''Abf1'')) far_joined))"
  have a: "fst (merge_motif_with_chexmix [(1, [motif_300_400])] [peak_150]) = []"
    by (simp only: far_join fst_conv)
  have b: "fst (replicate_loop (net_one_sample far_members) [peak_150] [(''R1'', ''S1'')] []
            (peaks_loaded 1)) = Inr [[]]"
    by (simp only: far_loop fst_conv)
  have c: "map_of (files ?final) (output_bed_file ''Abf1'') = Some (Csv output_columns [])"
    by (simp add: say_def to_csv_def)
  have d: "ToCsv (output_bed_file ''Abf1'') \<in> set (io_log ?final)"
    by (simp add: say_def to_csv_def)
  have e: "NoResults \<notin> set (stdout ?final)"
    by (simp add: say_def to_csv_def far_joined_def s1_extracted_def peaks_loaded_def)
  from one_rep_replicates [of far_members] a b c d e show ?thesis
    by (simp only: far_run fst_conv snd_conv simp_thms)
qed

text \<open>
  C4, amended. \<open>main\<close> tests whether the list of per-replicate tables is empty, not
  whether the tables have rows. The list holds one table for every replicate that was
  not skipped for lack of motif files. For a run in which the metadata and the reference
  peaks load and no replicate fails: when every replicate was skipped (or there is no
  replicate) no file is written, "no results" is printed and the run returns normally;
  otherwise the final table is written, whatever number of rows it has.
\<close>

theorem main_no_results:
  "get_replicates_for_tf e tf_name metadata_xlsx = Inr replicates \<Longrightarrow>
   load_tf_chexmix_bed e tf_name data_dir (say (FoundReplicates (length replicates) tf_name) w)
     = (Inr cx, w2) \<Longrightarrow>
   replicate_loop e cx replicates [] w2 = (Inr aggregated_results, w3) \<Longrightarrow>
   length aggregated_results + length (filter is_skip (stdout w3))
     = length replicates + length (filter is_skip (stdout w2))
   \<and> main e tf_name w =
       (Inr (),
        if aggregated_results = [] then say NoResults w3
        else say PipelineFinished
               (to_csv (final_df aggregated_results) output_columns (output_bed_file tf_name)
                  (say (SavingResults (output_bed_file tf_name)) w3)))
   \<and> filter is_to_csv (io_log (snd (main e tf_name w)))
       = (if aggregated_results = [] then filter is_to_csv (io_log w)
          else filter is_to_csv (io_log w) @ [ToCsv (output_bed_file tf_name)])"
proof -
  let ?w0 = "say (FoundReplicates (length replicates) tf_name) w"
  assume reps: "get_replicates_for_tf e tf_name metadata_xlsx = Inr replicates"
    and load: "load_tf_chexmix_bed e tf_name data_dir ?w0 = (Inr cx, w2)"
    and loop: "replicate_loop e cx replicates [] w2 = (Inr aggregated_results, w3)"
  note counts = replicate_loop_counts [OF loop]
  have tables: "length aggregated_results + length (filter is_skip (stdout w3))
     = length replicates + length (filter is_skip (stdout w2))"
    using counts by simp
  have run: "main e tf_name w =
       (Inr (),
        if aggregated_results = [] then say NoResults w3
        else say PipelineFinished
               (to_csv (final_df aggregated_results) output_columns (output_bed_file tf_name)
                  (say (SavingResults (output_bed_file tf_name)) w3)))"
    using reps load loop by (simp add: main_def Let_def)
  have "filter is_to_csv (io_log w3) = filter is_to_csv (io_log w2)"
    using counts by simp
  also have "\<dots> = filter is_to_csv (io_log ?w0)"
    using load by (rule load_tf_no_csv)
  finally have quiet: "filter is_to_csv (io_log w3) = filter is_to_csv (io_log w)"
    by simp
  have written: "filter is_to_csv (io_log (snd (main e tf_name w)))
       = (if aggregated_results = [] then filter is_to_csv (io_log w)
          else filter is_to_csv (io_log w) @ [ToCsv (output_bed_file tf_name)])"
    by (simp add: run quiet say_def to_csv_def)
  from tables run written show ?thesis by (intro conjI)
qed

theorem main_no_results_witness:
  "get_replicates_for_tf (net_one_sample []) ''Abf1'' metadata_xlsx = Inr [(''R1'', ''S1'')]
   \<and> replicate_loop (net_one_sample []) [peak_150] [(''R1'', ''S1'')] [] (peaks_loaded 1)
       = (Inr [], no_motifs_skipped)
   \<and> main (net_one_sample []) ''Abf1'' empty_world = (Inr (), say NoResults no_motifs_skipped)
   \<and> filter is_to_csv (io_log (snd (main (net_one_sample []) ''Abf1'' empty_world))) = []"
proof -
  have load: "load_tf_chexmix_bed (net_one_sample []) ''Abf1'' data_dir
       (say (FoundReplicates (length [(''R1'', ''S1'')]) ''Abf1'') empty_world)
     = (Inr [peak_150], peaks_loaded 1)"
  proof -
    have "length [(''R1'', ''S1'')] = 1" by simp
    then show ?thesis by (simp only: peaks_loaded_eval [OF one_sample_peaks])
  qed
  have "replicate_loop (net_one_sample []) [peak_150] [(''R1'', ''S1'')] [] (peaks_loaded 1)
      = replicate_loop (net_one_sample []) [peak_150] [] [] (say (NoMotifFiles ''S1'') (s1_extracted []))"
    by (rule replicate_skip [OF s1_fetch_none no_motifs_loaded])
  then have loop: "replicate_loop (net_one_sample []) [peak_150] [(''R1'', ''S1'')] [] (peaks_loaded 1)
       = (Inr [], no_motifs_skipped)"
    by (simp add: no_motifs_skipped_def)
  note t = main_no_results [OF one_rep_replicates load loop]
  have run: "main (net_one_sample []) ''Abf1'' empty_world = (Inr (), say NoResults no_motifs_skipped)"
    using t [THEN conjunct2, THEN conjunct1] by (simp only: simp_thms if_True)
  have "filter is_to_csv (io_log (snd (main (net_one_sample []) ''Abf1'' empty_world)))
      = filter is_to_csv (io_log empty_world)"
    using t [THEN conjunct2, THEN conjunct2] by (simp only: simp_thms if_True)
  then have quiet: "filter is_to_csv (io_log (snd (main (net_one_sample []) ''Abf1'' empty_world))) = []"
    by (simp add: empty_world_def)
  from one_rep_replicates [of "[]"] loop run quiet show ?thesis by (intro conjI)
qed

end
